theory Spec2Isabelle
  imports Complex_Main
begin

section \<open>Numbers, random draws and rectangles\<close>

text \<open>
  The repository holds two variants of one platformer: \<^verbatim>\<open>src/gmae.py\<close> (the desktop
  variant) and \<^verbatim>\<open>src/New folder/main.py\<close> (the web variant). A definition that carries
  the suffix \<open>_web\<close> is translated from \<^verbatim>\<open>main.py\<close>; a definition without it is
  translated from \<^verbatim>\<open>gmae.py\<close>, and where the text of the two files is the same it
  stands for both.

  Python floats are modelled as reals (no rounding), Python ints as \<open>int\<close>. The only
  conversions are \<open>int(x)\<close> and the assignment of a float to a coordinate of a
  \<^verbatim>\<open>pygame.Rect\<close>, both of which truncate toward zero.
\<close>

definition py_int :: "real \<Rightarrow> int" where
  "py_int v = (if 0 \<le> v then \<lfloor>v\<rfloor> else \<lceil>v\<rceil>)"

text \<open>C integer division, as \<^verbatim>\<open>pygame.Rect\<close> uses it for centres and for \<^verbatim>\<open>inflate\<close>.\<close>

definition c_div :: "int \<Rightarrow> int \<Rightarrow> int" where
  "c_div a b = sgn a * sgn b * (\<bar>a\<bar> div \<bar>b\<bar>)"

text \<open>
  The module \<^verbatim>\<open>random\<close> is global state. It is modelled as the sequence of unit draws
  that the generator will return; every call takes the first draw and leaves the rest.
  \<^verbatim>\<open>random.uniform(a, b)\<close> is \<open>a + (b - a) * random()\<close>.
\<close>

type_synonym rng = "nat \<Rightarrow> real"

definition uniform :: "real \<Rightarrow> real \<Rightarrow> rng \<Rightarrow> real \<times> rng" where
  "uniform a b g = (a + (b - a) * g 0, \<lambda>i. g (Suc i))"

definition randint :: "int \<Rightarrow> int \<Rightarrow> rng \<Rightarrow> int \<times> rng" where
  "randint a b g = (a + \<lfloor>g 0 * real_of_int (b - a + 1)\<rfloor>, \<lambda>i. g (Suc i))"

text \<open>
  \<^verbatim>\<open>pygame.Rect\<close>: integer position and size. The derived attributes and their setters
  follow pygame: \<open>right = x + w\<close>, \<open>bottom = y + h\<close>, \<open>centerx = x + w / 2\<close>, and
  assigning an edge moves the rectangle without resizing it.
\<close>

record Rect =
  rect_x :: int
  rect_y :: int
  rect_w :: int
  rect_h :: int

definition mk_rect :: "int \<Rightarrow> int \<Rightarrow> int \<Rightarrow> int \<Rightarrow> Rect" where
  "mk_rect a b c d = \<lparr>rect_x = a, rect_y = b, rect_w = c, rect_h = d\<rparr>"

definition rect_left :: "Rect \<Rightarrow> int" where "rect_left r = rect_x r"
definition rect_top :: "Rect \<Rightarrow> int" where "rect_top r = rect_y r"
definition rect_right :: "Rect \<Rightarrow> int" where "rect_right r = rect_x r + rect_w r"
definition rect_bottom :: "Rect \<Rightarrow> int" where "rect_bottom r = rect_y r + rect_h r"
definition rect_centerx :: "Rect \<Rightarrow> int" where "rect_centerx r = rect_x r + c_div (rect_w r) 2"
definition rect_centery :: "Rect \<Rightarrow> int" where "rect_centery r = rect_y r + c_div (rect_h r) 2"
definition rect_center :: "Rect \<Rightarrow> int \<times> int" where
  "rect_center r = (rect_centerx r, rect_centery r)"

definition set_left :: "Rect \<Rightarrow> int \<Rightarrow> Rect" where "set_left r v = r\<lparr>rect_x := v\<rparr>"
definition set_top :: "Rect \<Rightarrow> int \<Rightarrow> Rect" where "set_top r v = r\<lparr>rect_y := v\<rparr>"
definition set_right :: "Rect \<Rightarrow> int \<Rightarrow> Rect" where
  "set_right r v = r\<lparr>rect_x := v - rect_w r\<rparr>"
definition set_bottom :: "Rect \<Rightarrow> int \<Rightarrow> Rect" where
  "set_bottom r v = r\<lparr>rect_y := v - rect_h r\<rparr>"
definition set_topleft :: "Rect \<Rightarrow> int \<times> int \<Rightarrow> Rect" where
  "set_topleft r p = r\<lparr>rect_x := fst p, rect_y := snd p\<rparr>"

definition inflate :: "Rect \<Rightarrow> int \<Rightarrow> int \<Rightarrow> Rect" where
  "inflate r dx dy =
     \<lparr>rect_x = rect_x r - c_div dx 2, rect_y = rect_y r - c_div dy 2,
      rect_w = rect_w r + dx, rect_h = rect_h r + dy\<rparr>"

text \<open>
  \<^verbatim>\<open>Rect.colliderect\<close>: rectangles of zero width or height collide with nothing, and
  touching edges do not overlap.
\<close>

definition colliderect :: "Rect \<Rightarrow> Rect \<Rightarrow> bool" where
  "colliderect a b =
     (if rect_w a = 0 \<or> rect_h a = 0 \<or> rect_w b = 0 \<or> rect_h b = 0 then False
      else min (rect_x a) (rect_x a + rect_w a) < max (rect_x b) (rect_x b + rect_w b)
         \<and> min (rect_y a) (rect_y a + rect_h a) < max (rect_y b) (rect_y b + rect_h b)
         \<and> max (rect_x a) (rect_x a + rect_w a) > min (rect_x b) (rect_x b + rect_w b)
         \<and> max (rect_y a) (rect_y a + rect_h a) > min (rect_y b) (rect_y b + rect_h b))"

section \<open>Configuration\<close>

definition WIDTH :: int where "WIDTH = 1280"
definition HEIGHT :: int where "HEIGHT = 720"
definition GRAVITY :: real where "GRAVITY = 0.8"
definition JUMP_VELOCITY :: real where "JUMP_VELOCITY = - 15.0"
definition DOUBLE_JUMP_VELOCITY :: real where "DOUBLE_JUMP_VELOCITY = - 13.5"
definition MOVE_SPEED :: real where "MOVE_SPEED = 6.5"
definition AIR_CONTROL :: real where "AIR_CONTROL = 0.7"
definition FRICTION :: real where "FRICTION = 0.88"
definition AIR_RESISTANCE :: real where "AIR_RESISTANCE = 0.96"
definition TERMINAL_VELOCITY :: real where "TERMINAL_VELOCITY = 18.0"

type_synonym color = "nat \<times> nat \<times> nat"

definition COLOR_WALL_CRACK :: color where "COLOR_WALL_CRACK = (240, 245, 255)"
definition COLOR_DOOR :: color where "COLOR_DOOR = (120, 200, 180)"
definition COLOR_DUST :: color where "COLOR_DUST = (180, 180, 200)"
definition COLOR_IMPACT :: color where "COLOR_IMPACT = (255, 180, 80)"

datatype GameState = PLAYING | DEAD | WON | PAUSED

datatype key = K_a | K_d | K_LEFT | K_RIGHT | K_w | K_SPACE | K_UP | K_r | K_ESCAPE

type_synonym keys = "key \<Rightarrow> bool"

section \<open>Particle system\<close>

record Particle =
  p_pos :: "real \<times> real"
  p_vel :: "real \<times> real"
  p_life :: real
  p_max_life :: real
  p_color :: color
  p_size :: real

text \<open>The body of the loop of \<^verbatim>\<open>add_explosion\<close> in \<^verbatim>\<open>gmae.py\<close>, run \<open>n\<close> times.\<close>

fun explosion_loop ::
  "nat \<Rightarrow> real \<times> real \<Rightarrow> color \<Rightarrow> real \<times> real \<Rightarrow> Particle list \<Rightarrow> rng \<Rightarrow> Particle list \<times> rng"
where
  "explosion_loop 0 pos col vr ps g = (ps, g)"
| "explosion_loop (Suc n) pos col vr ps g =
     (let (vx, g1) = uniform (fst vr) (snd vr) g;
          (vy, g2) = uniform (fst vr) (- 1) g1;
          (life, g3) = uniform 0.5 1.2 g2;
          (size, g4) = uniform 2 5 g3
      in explosion_loop n pos col vr
           (ps @ [\<lparr>p_pos = pos, p_vel = (vx, vy), p_life = life, p_max_life = life,
                    p_color = col, p_size = size\<rparr>]) g4)"

text \<open>\<^verbatim>\<open>ParticleSystem\<close> of \<^verbatim>\<open>gmae.py\<close> has the list \<open>particles\<close> as its only attribute.\<close>

definition add_explosion ::
  "Particle list \<Rightarrow> real \<times> real \<Rightarrow> int \<Rightarrow> color \<Rightarrow> real \<times> real \<Rightarrow> rng \<Rightarrow> Particle list \<times> rng"
where
  "add_explosion ps pos count col vel_range g = explosion_loop (nat count) pos col vel_range ps g"

fun dust_loop :: "nat \<Rightarrow> real \<times> real \<Rightarrow> Particle list \<Rightarrow> rng \<Rightarrow> Particle list \<times> rng" where
  "dust_loop 0 pos ps g = (ps, g)"
| "dust_loop (Suc n) pos ps g =
     (let (vx, g1) = uniform (- 1) 1 g;
          (vy, g2) = uniform (- 2) (- 0.5) g1;
          (life, g3) = uniform 0.3 0.8 g2;
          (size, g4) = uniform 1 3 g3
      in dust_loop n pos
           (ps @ [\<lparr>p_pos = pos, p_vel = (vx, vy), p_life = life, p_max_life = life,
                    p_color = COLOR_DUST, p_size = size\<rparr>]) g4)"

definition add_dust :: "Particle list \<Rightarrow> real \<times> real \<Rightarrow> int \<Rightarrow> rng \<Rightarrow> Particle list \<times> rng" where
  "add_dust ps pos count g = dust_loop (nat count) pos ps g"

text \<open>
  One particle's step in \<^verbatim>\<open>update\<close>. The loop of \<^verbatim>\<open>gmae.py\<close> removes a particle whose
  life has run out with \<^verbatim>\<open>list.remove\<close>, which drops the first equal element; every
  earlier element still in the list has positive life, so that element is the particle
  itself, and the loop is the filter that \<^verbatim>\<open>main.py\<close> writes.
\<close>

definition update_particle :: "real \<Rightarrow> Particle \<Rightarrow> Particle" where
  "update_particle dt p =
     (let vy = snd (p_vel p) + GRAVITY * 0.3
      in p\<lparr>p_vel := (fst (p_vel p), vy),
            p_pos := (fst (p_pos p) + fst (p_vel p), snd (p_pos p) + vy),
            p_life := p_life p - dt\<rparr>)"

definition ParticleSystem_update :: "Particle list \<Rightarrow> real \<Rightarrow> Particle list" where
  "ParticleSystem_update ps dt = filter (\<lambda>p. \<not> p_life p \<le> 0) (map (update_particle dt) ps)"

text \<open>
  \<^verbatim>\<open>ParticleSystem\<close> of \<^verbatim>\<open>main.py\<close> adds \<open>max_particles\<close>. A Python slice
  \<^verbatim>\<open>xs[i:]\<close> with a negative \<open>i\<close> starts \<open>-i\<close> elements before the end, or at the
  start of the list when it is shorter.
\<close>

record ParticleSystem_web =
  particles_web :: "Particle list"
  max_particles :: int

definition ParticleSystem_init_web :: ParticleSystem_web where
  "ParticleSystem_init_web = \<lparr>particles_web = [], max_particles = 100\<rparr>"

definition slice_from :: "int \<Rightarrow> 'a list \<Rightarrow> 'a list" where
  "slice_from i xs =
     (if i < 0 then drop (nat (max 0 (int (length xs) + i))) xs else drop (nat i) xs)"

fun explosion_loop_web ::
  "nat \<Rightarrow> real \<times> real \<Rightarrow> color \<Rightarrow> real \<times> real \<Rightarrow> Particle list \<Rightarrow> rng \<Rightarrow> Particle list \<times> rng"
where
  "explosion_loop_web 0 pos col vr ps g = (ps, g)"
| "explosion_loop_web (Suc n) pos col vr ps g =
     (let (vx, g1) = uniform (fst vr) (snd vr) g;
          (vy, g2) = uniform (fst vr) (- 1) g1;
          (life, g3) = uniform 0.5 1.0 g2;
          (size, g4) = uniform 2 4 g3
      in explosion_loop_web n pos col vr
           (ps @ [\<lparr>p_pos = pos, p_vel = (vx, vy), p_life = life, p_max_life = life,
                    p_color = col, p_size = size\<rparr>]) g4)"

definition add_explosion_web ::
  "ParticleSystem_web \<Rightarrow> real \<times> real \<Rightarrow> int \<Rightarrow> color \<Rightarrow> real \<times> real \<Rightarrow> rng
     \<Rightarrow> ParticleSystem_web \<times> rng"
where
  "add_explosion_web s pos count0 col vel_range g =
     (let count = min count0 10;
          kept = (if int (length (particles_web s)) + count > max_particles s
                  then slice_from (- (max_particles s - count)) (particles_web s)
                  else particles_web s);
          (ps, g') = explosion_loop_web (nat count) pos col vel_range kept g
      in (s\<lparr>particles_web := ps\<rparr>, g'))"

fun dust_loop_web :: "nat \<Rightarrow> real \<times> real \<Rightarrow> Particle list \<Rightarrow> rng \<Rightarrow> Particle list \<times> rng" where
  "dust_loop_web 0 pos ps g = (ps, g)"
| "dust_loop_web (Suc n) pos ps g =
     (let (vx, g1) = uniform (- 1) 1 g;
          (vy, g2) = uniform (- 2) (- 0.5) g1;
          (life, g3) = uniform 0.2 0.6 g2;
          (size, g4) = uniform 1 2 g3
      in dust_loop_web n pos
           (ps @ [\<lparr>p_pos = pos, p_vel = (vx, vy), p_life = life, p_max_life = life,
                    p_color = COLOR_DUST, p_size = size\<rparr>]) g4)"

definition add_dust_web ::
  "ParticleSystem_web \<Rightarrow> real \<times> real \<Rightarrow> int \<Rightarrow> rng \<Rightarrow> ParticleSystem_web \<times> rng"
where
  "add_dust_web s pos count g =
     (if int (length (particles_web s)) + count > max_particles s then (s, g)
      else (let (ps, g') = dust_loop_web (nat count) pos (particles_web s) g
            in (s\<lparr>particles_web := ps\<rparr>, g')))"

definition ParticleSystem_update_web :: "ParticleSystem_web \<Rightarrow> real \<Rightarrow> ParticleSystem_web" where
  "ParticleSystem_update_web s dt =
     s\<lparr>particles_web := filter (\<lambda>p. p_life p > 0) (map (update_particle dt) (particles_web s))\<rparr>"

section \<open>Camera, platforms and hazards\<close>

record Camera =
  cam_x :: real
  cam_y :: real
  cam_target_x :: real
  cam_target_y :: real
  shake_intensity :: real
  shake_duration :: real

definition Camera_init :: Camera where
  "Camera_init = \<lparr>cam_x = 0, cam_y = 0, cam_target_x = 0, cam_target_y = 0,
                   shake_intensity = 0, shake_duration = 0\<rparr>"

definition follow :: "Camera \<Rightarrow> Rect \<Rightarrow> real \<Rightarrow> Camera" where
  "follow c target_rect smooth =
     (let tx = real_of_int (rect_centerx target_rect - WIDTH div 2);
          ty = real_of_int (rect_centery target_rect - HEIGHT div 2);
          x1 = cam_x c + (tx - cam_x c) * smooth;
          y1 = cam_y c + (ty - cam_y c) * smooth
      in c\<lparr>cam_target_x := tx, cam_target_y := ty,
            cam_x := max 0 (min x1 (real_of_int (WIDTH - WIDTH))),
            cam_y := max (real_of_int ((- HEIGHT) div 4)) (min y1 (real_of_int (HEIGHT div 4)))\<rparr>)"

definition add_shake :: "Camera \<Rightarrow> real \<Rightarrow> real \<Rightarrow> Camera" where
  "add_shake c intensity duration =
     c\<lparr>shake_intensity := max (shake_intensity c) intensity,
       shake_duration := max (shake_duration c) duration\<rparr>"

definition Camera_update :: "Camera \<Rightarrow> real \<Rightarrow> Camera" where
  "Camera_update c dt =
     (if shake_duration c > 0
      then (let c1 = c\<lparr>shake_duration := shake_duration c - dt\<rparr>
            in if shake_duration c1 \<le> 0 then c1\<lparr>shake_intensity := 0\<rparr> else c1)
      else c)"

text \<open>A \<^verbatim>\<open>Platform\<close> is its rectangle and its type tag; the drawn surface is left out.\<close>

record Platform =
  pf_rect :: Rect
  platform_type :: string

definition Platform_init :: "int \<Rightarrow> int \<Rightarrow> int \<Rightarrow> int \<Rightarrow> Platform" where
  "Platform_init a b c d = \<lparr>pf_rect = mk_rect a b c d, platform_type = ''normal''\<rparr>"

text \<open>\<^verbatim>\<open>MagicWall\<close>: the same text in both files.\<close>

record MagicWall =
  mw_rect :: Rect
  mw_alive :: bool
  cracked :: bool
  crack_timer :: real
  crack_progress :: real
  health :: int
  shake_timer :: real

definition MagicWall_init :: "int \<Rightarrow> int \<Rightarrow> int \<Rightarrow> int \<Rightarrow> MagicWall" where
  "MagicWall_init a b c d =
     \<lparr>mw_rect = mk_rect a b c d, mw_alive = True, cracked = False, crack_timer = 0,
      crack_progress = 0, health = 2, shake_timer = 0\<rparr>"

text \<open>\<^verbatim>\<open>hit\<close> returns whether this hit destroyed the wall, and the wall after it.\<close>

definition hit :: "MagicWall \<Rightarrow> bool \<times> MagicWall" where
  "hit w =
     (if \<not> mw_alive w then (False, w)
      else (let w1 = w\<lparr>health := health w - 1, shake_timer := 0.3\<rparr>
            in if health w1 \<le> 0 then (True, w1\<lparr>mw_alive := False\<rparr>)
               else (False, w1\<lparr>cracked := True, crack_timer := 0.8\<rparr>)))"

definition MagicWall_update :: "MagicWall \<Rightarrow> real \<Rightarrow> MagicWall" where
  "MagicWall_update w dt =
     (let w1 = (if shake_timer w > 0 then w\<lparr>shake_timer := shake_timer w - dt\<rparr> else w)
      in if cracked w1 \<and> crack_timer w1 > 0
         then (let w2 = w1\<lparr>crack_timer := crack_timer w1 - dt\<rparr>
               in w2\<lparr>crack_progress := 1 - crack_timer w2 / 0.8\<rparr>)
         else w1)"

text \<open>\<^verbatim>\<open>Spike\<close>: the same text in both files. The dictionary \<open>move_pattern\<close> is a record
  whose optional entries are read with \<^verbatim>\<open>dict.get\<close> and a default.\<close>

record MovePattern =
  mp_type :: string
  mp_speed :: "real option"
  mp_range :: "real option"

record Spike =
  sp_base_rect :: Rect
  sp_rect :: Rect
  popup :: bool
  delay :: real
  sp_timer :: real
  sp_active :: bool
  warn_phase :: real
  move_pattern :: MovePattern
  move_timer :: real
  original_pos :: "int \<times> int"

definition Spike_init ::
  "int \<Rightarrow> int \<Rightarrow> int \<Rightarrow> int \<Rightarrow> bool \<Rightarrow> real \<Rightarrow> MovePattern option \<Rightarrow> Spike" where
  "Spike_init a b c d pop del mp =
     \<lparr>sp_base_rect = mk_rect a b c d, sp_rect = mk_rect a b c d, popup = pop, delay = del,
      sp_timer = del, sp_active = (\<not> pop), warn_phase = 0,
      move_pattern = (case mp of None \<Rightarrow> \<lparr>mp_type = ''none'', mp_speed = None, mp_range = None\<rparr>
                      | Some m \<Rightarrow> m),
      move_timer = 0, original_pos = (a, b)\<rparr>"

definition get_default :: "'a option \<Rightarrow> 'a \<Rightarrow> 'a" where
  "get_default v d = (case v of None \<Rightarrow> d | Some y \<Rightarrow> y)"

definition Spike_update :: "Spike \<Rightarrow> real \<Rightarrow> Spike" where
  "Spike_update s dt =
     (let s1 = (if popup s \<and> \<not> sp_active s
                then (let s' = s\<lparr>sp_timer := sp_timer s - dt, warn_phase := warn_phase s + dt * 8\<rparr>
                      in if sp_timer s' \<le> 0 then s'\<lparr>sp_active := True\<rparr> else s')
                else s);
          s2 = s1\<lparr>move_timer := move_timer s1 + dt\<rparr>;
          mp = move_pattern s2
      in if mp_type mp = ''horizontal''
         then s2\<lparr>sp_rect := (sp_rect s2)\<lparr>rect_x := py_int (real_of_int (fst (original_pos s2))
                   + sin (move_timer s2 * get_default (mp_speed mp) 2) * get_default (mp_range mp) 100)\<rparr>\<rparr>
         else if mp_type mp = ''vertical''
         then s2\<lparr>sp_rect := (sp_rect s2)\<lparr>rect_y := py_int (real_of_int (snd (original_pos s2))
                   + sin (move_timer s2 * get_default (mp_speed mp) 1.5) * get_default (mp_range mp) 50)\<rparr>\<rparr>
         else s2)"

definition get_danger_zone :: "Spike \<Rightarrow> ((int \<times> int) \<times> (int \<times> int) \<times> (int \<times> int)) option" where
  "get_danger_zone s =
     (if \<not> sp_active s then None
      else Some ((rect_centerx (sp_rect s), rect_top (sp_rect s)),
                 (rect_left (sp_rect s) + 4, rect_bottom (sp_rect s) - 4),
                 (rect_right (sp_rect s) - 4, rect_bottom (sp_rect s) - 4)))"

text \<open>\<^verbatim>\<open>FallingStone\<close>: the attributes and \<^verbatim>\<open>trigger_check\<close> are the same in both files;
  \<^verbatim>\<open>update\<close> differs.\<close>

record FallingStone =
  fs_rect :: Rect
  fs_vy :: real
  fs_vx :: real
  rotation :: real
  angular_velocity :: real
  dropped :: bool
  settled :: bool
  warning :: bool
  warning_timer :: real
  trigger_range :: "int \<times> int"
  bounces :: int
  max_bounces :: int

definition FallingStone_init :: "int \<Rightarrow> int \<Rightarrow> int \<times> int \<Rightarrow> real \<Rightarrow> FallingStone" where
  "FallingStone_init a top_y trig warning_time =
     \<lparr>fs_rect = mk_rect a top_y 45 45, fs_vy = 0, fs_vx = 0, rotation = 0, angular_velocity = 0,
      dropped = False, settled = False, warning = False, warning_timer = warning_time,
      trigger_range = trig, bounces = 0, max_bounces = 2\<rparr>"

definition trigger_check :: "FallingStone \<Rightarrow> int \<Rightarrow> FallingStone" where
  "trigger_check s player_x =
     (if \<not> dropped s \<and> \<not> warning s
      then (if fst (trigger_range s) \<le> player_x \<and> player_x \<le> snd (trigger_range s)
            then s\<lparr>warning := True\<rparr> else s)
      else s)"

text \<open>The first block of \<^verbatim>\<open>FallingStone.update\<close>, the same in both files: the countdown of
  the warning and the drop.\<close>

definition warning_step :: "FallingStone \<Rightarrow> real \<Rightarrow> rng \<Rightarrow> FallingStone \<times> rng" where
  "warning_step s dt g =
     (if warning s \<and> \<not> dropped s
      then (let s1 = s\<lparr>warning_timer := warning_timer s - dt\<rparr>
            in if warning_timer s1 \<le> 0
               then (let (av, g1) = uniform (- 5) 5 g
                     in (s1\<lparr>dropped := True, fs_vy := 0, angular_velocity := av\<rparr>, g1))
               else (s1, g))
      else (s, g))"

text \<open>The loop over the platforms in \<^verbatim>\<open>gmae.py\<close>, which stops at the first platform
  the stone overlaps.\<close>

fun stone_collisions ::
  "Platform list \<Rightarrow> FallingStone \<Rightarrow> Particle list \<Rightarrow> rng \<Rightarrow> FallingStone \<times> Particle list \<times> rng"
where
  "stone_collisions [] s ps g = (s, ps, g)"
| "stone_collisions (pf # pfs) s ps g =
     (if colliderect (fs_rect s) (pf_rect pf)
      then (if bounces s < max_bounces s
            then (let s1 = s\<lparr>fs_rect := set_bottom (fs_rect s) (rect_top (pf_rect pf))\<rparr>;
                      s2 = s1\<lparr>fs_vy := - fs_vy s1 * 0.4\<rparr>;
                      (dv, g1) = uniform (- 2) 2 g;
                      s3 = s2\<lparr>fs_vx := fs_vx s2 + dv, angular_velocity := angular_velocity s2 * 0.7,
                              bounces := bounces s2 + 1\<rparr>;
                      (ps1, g2) = add_explosion ps
                          (real_of_int (rect_centerx (fs_rect s3)), real_of_int (rect_bottom (fs_rect s3)))
                          15 COLOR_IMPACT (- 5, 5) g1
                  in (s3, ps1, g2))
            else (let s1 = s\<lparr>fs_rect := set_bottom (fs_rect s) (rect_top (pf_rect pf))\<rparr>;
                      s2 = s1\<lparr>fs_vy := 0, fs_vx := fs_vx s1 * 0.8,
                              angular_velocity := angular_velocity s1 * 0.9\<rparr>;
                      s3 = (if \<bar>fs_vx s2\<bar> < 0.1 \<and> \<bar>angular_velocity s2\<bar> < 0.1
                            then s2\<lparr>settled := True\<rparr> else s2);
                      (ps1, g1) = add_explosion ps
                          (real_of_int (rect_centerx (fs_rect s3)), real_of_int (rect_bottom (fs_rect s3)))
                          25 COLOR_IMPACT (- 5, 5) g
                  in (s3, ps1, g1)))
      else stone_collisions pfs s ps g)"

definition FallingStone_update ::
  "FallingStone \<Rightarrow> real \<Rightarrow> Platform list \<Rightarrow> Particle list \<Rightarrow> rng
     \<Rightarrow> FallingStone \<times> Particle list \<times> rng"
where
  "FallingStone_update s dt platforms ps g =
     (let (s1, g1) = warning_step s dt g
      in if dropped s1 \<and> \<not> settled s1
         then (let s2 = s1\<lparr>fs_vy := fs_vy s1 + GRAVITY * 1.5\<rparr>;
                   s3 = s2\<lparr>fs_vy := min (fs_vy s2) TERMINAL_VELOCITY\<rparr>;
                   s4 = s3\<lparr>fs_rect := (fs_rect s3)\<lparr>rect_x := rect_x (fs_rect s3) + py_int (fs_vx s3)\<rparr>\<rparr>;
                   s5 = s4\<lparr>fs_rect := (fs_rect s4)\<lparr>rect_y := rect_y (fs_rect s4) + py_int (fs_vy s4)\<rparr>\<rparr>;
                   s6 = s5\<lparr>rotation := rotation s5 + angular_velocity s5 * dt\<rparr>
               in stone_collisions platforms s6 ps g1)
         else (s1, ps, g1))"

text \<open>\<^verbatim>\<open>Door\<close> of \<^verbatim>\<open>gmae.py\<close>. The list \<open>teleport_particles\<close> is created empty and never
  used, and is left out.\<close>

record Door =
  d_rect :: Rect
  alt_pos :: "int \<times> int"
  trolled_once :: bool
  d_open :: bool
  pulse :: real
  glow_intensity :: real

definition Door_init :: "int \<times> int \<Rightarrow> int \<times> int \<Rightarrow> Door" where
  "Door_init pos1 pos2 =
     \<lparr>d_rect = mk_rect (fst pos1) (snd pos1) 40 60, alt_pos = pos2, trolled_once = False,
      d_open = False, pulse = 0, glow_intensity = 0\<rparr>"

text \<open>The condition of \<^verbatim>\<open>maybe_troll\<close>.\<close>

definition troll_fires :: "Door \<Rightarrow> Rect \<Rightarrow> bool" where
  "troll_fires d player_rect =
     (\<not> trolled_once d \<and> colliderect player_rect (inflate (d_rect d) 60 20)
      \<and> rect_centery player_rect \<le> rect_centery (d_rect d))"

definition maybe_troll :: "Door \<Rightarrow> Rect \<Rightarrow> Particle list \<Rightarrow> rng \<Rightarrow> Door \<times> Particle list \<times> rng" where
  "maybe_troll d player_rect ps g =
     (if troll_fires d player_rect
      then (let old_pos = rect_center (d_rect d);
                d1 = d\<lparr>d_rect := set_topleft (d_rect d) (alt_pos d)\<rparr>;
                d2 = d1\<lparr>trolled_once := True\<rparr>;
                (ps1, g1) = add_explosion ps (real_of_int (fst old_pos), real_of_int (snd old_pos))
                              30 COLOR_DOOR (- 5, 5) g;
                (ps2, g2) = add_explosion ps1
                              (real_of_int (fst (rect_center (d_rect d2))),
                               real_of_int (snd (rect_center (d_rect d2))))
                              30 COLOR_DOOR (- 5, 5) g1
            in (d2, ps2, g2))
      else (d, ps, g))"

definition set_open :: "Door \<Rightarrow> Door" where
  "set_open d = d\<lparr>d_open := True, glow_intensity := 1.0\<rparr>"

definition Door_update :: "Door \<Rightarrow> real \<Rightarrow> Door" where
  "Door_update d dt =
     (let d1 = d\<lparr>pulse := pulse d + dt * 3\<rparr>
      in if d_open d1 \<and> glow_intensity d1 > 0
         then d1\<lparr>glow_intensity := min 1.0 (glow_intensity d1 + dt * 2)\<rparr> else d1)"

definition check_win_collision :: "Door \<Rightarrow> Rect \<Rightarrow> bool" where
  "check_win_collision d player_rect =
     (if d_open d \<and> colliderect player_rect (inflate (d_rect d) (- 5) (- 5))
         \<and> rect_centery player_rect \<le> rect_centery (d_rect d) + 10
      then True else False)"

section \<open>Player (gmae.py)\<close>

record Player =
  pl_rect :: Rect
  vx :: real
  vy :: real
  on_ground :: bool
  can_double_jump :: bool
  has_double_jumped :: bool
  dead :: bool
  win :: bool
  facing_right :: bool
  animation_timer :: real
  squash_stretch :: real
  coyote_time :: real
  coyote_timer :: real
  jump_buffer_time :: real
  jump_buffer_timer :: real
  wall_slide_timer :: real
  dust_timer :: real

definition Player_init :: "int \<Rightarrow> int \<Rightarrow> Player" where
  "Player_init a b =
     \<lparr>pl_rect = mk_rect a b 32 44, vx = 0, vy = 0, on_ground = False, can_double_jump = False,
      has_double_jumped = False, dead = False, win = False, facing_right = True,
      animation_timer = 0, squash_stretch = 1.0, coyote_time = 0.1, coyote_timer = 0,
      jump_buffer_time = 0.1, jump_buffer_timer = 0, wall_slide_timer = 0, dust_timer = 0\<rparr>"

definition jump_pressed :: "keys \<Rightarrow> bool" where
  "jump_pressed ks = (ks K_w \<or> ks K_SPACE \<or> ks K_UP)"

text \<open>\<^verbatim>\<open>Player.control\<close>, first half: horizontal movement and friction.\<close>

definition control_move :: "Player \<Rightarrow> keys \<Rightarrow> Player" where
  "control_move p ks =
     (let (m1, p1) = (if ks K_a \<or> ks K_LEFT then (- 1, p\<lparr>facing_right := False\<rparr>) else (0::int, p));
          (move_input, p2) = (if ks K_d \<or> ks K_RIGHT then (m1 + 1, p1\<lparr>facing_right := True\<rparr>)
                              else (m1, p1));
          control_strength = (if on_ground p2 then 1.0 else AIR_CONTROL);
          target_vx = real_of_int move_input * MOVE_SPEED;
          accel = (if on_ground p2 then 0.8 else 0.4);
          p3 = p2\<lparr>vx := vx p2 + (target_vx - vx p2) * accel * control_strength\<rparr>
      in if on_ground p3
         then (if \<bar>real_of_int move_input\<bar> < 0.1 then p3\<lparr>vx := vx p3 * FRICTION\<rparr> else p3)
         else p3\<lparr>vx := vx p3 * AIR_RESISTANCE\<rparr>)"

text \<open>Second half: the jump buffer, the jump or double jump, and the timers.\<close>

definition control_jump :: "Player \<Rightarrow> keys \<Rightarrow> real \<Rightarrow> Player" where
  "control_jump p4 ks dt =
     (let p5 = (if jump_pressed ks then p4\<lparr>jump_buffer_timer := jump_buffer_time p4\<rparr> else p4);
          p6 = (if jump_buffer_timer p5 > 0
                then (if coyote_timer p5 > 0
                      then p5\<lparr>vy := JUMP_VELOCITY, on_ground := False, can_double_jump := True,
                              coyote_timer := 0, jump_buffer_timer := 0\<rparr>
                      else if can_double_jump p5 \<and> \<not> has_double_jumped p5
                      then p5\<lparr>vy := DOUBLE_JUMP_VELOCITY, has_double_jumped := True,
                              can_double_jump := False, jump_buffer_timer := 0\<rparr>
                      else p5)
                else p5);
          p7 = (if jump_buffer_timer p6 > 0
                then p6\<lparr>jump_buffer_timer := jump_buffer_timer p6 - dt\<rparr> else p6)
      in if coyote_timer p7 > 0 then p7\<lparr>coyote_timer := coyote_timer p7 - dt\<rparr> else p7)"

definition control :: "Player \<Rightarrow> keys \<Rightarrow> real \<Rightarrow> Player" where
  "control p ks dt = control_jump (control_move p ks) ks dt"

text \<open>The body of the loop over the platforms that resolves horizontal overlaps.\<close>

definition horizontal_collide :: "Platform \<Rightarrow> Player \<Rightarrow> Player" where
  "horizontal_collide pf p =
     (if colliderect (pl_rect p) (pf_rect pf)
      then (if vx p > 0 then p\<lparr>pl_rect := set_right (pl_rect p) (rect_left (pf_rect pf)), vx := 0\<rparr>
            else if vx p < 0
            then p\<lparr>pl_rect := set_left (pl_rect p) (rect_right (pf_rect pf)), vx := 0\<rparr>
            else p)
      else p)"

text \<open>The body of the loop over the platforms that resolves vertical overlaps; a hard
  landing emits dust.\<close>

definition vertical_collide ::
  "Platform \<Rightarrow> Player \<times> Particle list \<times> rng \<Rightarrow> Player \<times> Particle list \<times> rng" where
  "vertical_collide pf st =
     (let (p, ps, g) = st
      in if colliderect (pl_rect p) (pf_rect pf)
         then (if vy p > 0
               then (let p1 = p\<lparr>pl_rect := set_bottom (pl_rect p) (rect_top (pf_rect pf))\<rparr>;
                         (p2, ps2, g2) =
                            (if vy p1 > 8
                             then (let (ps', g') = add_dust ps
                                        (real_of_int (rect_centerx (pl_rect p1)),
                                         real_of_int (rect_bottom (pl_rect p1))) 8 g
                                   in (p1\<lparr>squash_stretch := 0.7\<rparr>, ps', g'))
                             else (p1, ps, g))
                     in (p2\<lparr>vy := 0, on_ground := True, has_double_jumped := False,
                            can_double_jump := True\<rparr>, ps2, g2))
               else if vy p < 0
               then (p\<lparr>pl_rect := set_top (pl_rect p) (rect_bottom (pf_rect pf)), vy := 0\<rparr>, ps, g)
               else (p, ps, g))
         else (p, ps, g))"

text \<open>\<^verbatim>\<open>Player.physics\<close> up to the start of the vertical collision loop: gravity, the
  horizontal move and its collisions, the vertical move. The result is \<open>was_on_ground\<close>
  and the moved player.\<close>

definition physics_move :: "Player \<Rightarrow> Platform list \<Rightarrow> bool \<times> Player" where
  "physics_move p platforms =
     (let p1 = (if \<not> on_ground p
                then (let q = p\<lparr>vy := vy p + GRAVITY\<rparr> in q\<lparr>vy := min (vy q) TERMINAL_VELOCITY\<rparr>)
                else p);
          p2 = p1\<lparr>pl_rect := (pl_rect p1)\<lparr>rect_x := rect_x (pl_rect p1) + py_int (vx p1)\<rparr>\<rparr>;
          p3 = fold horizontal_collide platforms p2;
          p4 = p3\<lparr>pl_rect := (pl_rect p3)\<lparr>rect_y := rect_y (pl_rect p3) + py_int (vy p3)\<rparr>\<rparr>;
          was_on_ground = on_ground p4
      in (was_on_ground, p4\<lparr>on_ground := False\<rparr>))"

text \<open>Then the vertical collision loop.\<close>

definition physics_resolve ::
  "Player \<Rightarrow> Platform list \<Rightarrow> Particle list \<Rightarrow> rng \<Rightarrow> bool \<times> Player \<times> Particle list \<times> rng" where
  "physics_resolve p platforms ps g =
     (let (was_on_ground, p5) = physics_move p platforms;
          (p6, ps6, g6) = fold vertical_collide platforms (p5, ps, g)
      in (was_on_ground, p6, ps6, g6))"

text \<open>The rest of \<^verbatim>\<open>Player.physics\<close>: coyote time, the bounds of the window, dust while
  running, animation.\<close>

definition physics_finish ::
  "bool \<Rightarrow> Player \<Rightarrow> real \<Rightarrow> Particle list \<Rightarrow> rng \<Rightarrow> Player \<times> Particle list \<times> rng" where
  "physics_finish was_on_ground p dt ps g =
     (let p1 = (if was_on_ground \<and> \<not> on_ground p then p\<lparr>coyote_timer := coyote_time p\<rparr>
                else if on_ground p then p\<lparr>coyote_timer := coyote_time p\<rparr> else p);
          p2 = p1\<lparr>pl_rect := set_left (pl_rect p1) (max 0 (rect_left (pl_rect p1)))\<rparr>;
          p3 = p2\<lparr>pl_rect := set_right (pl_rect p2) (min WIDTH (rect_right (pl_rect p2)))\<rparr>;
          p4 = (if rect_top (pl_rect p3) < 0
                then p3\<lparr>pl_rect := set_top (pl_rect p3) 0, vy := max 0 (vy p3)\<rparr> else p3);
          p5 = (if rect_bottom (pl_rect p4) > HEIGHT
                then p4\<lparr>pl_rect := set_bottom (pl_rect p4) HEIGHT, vy := 0, on_ground := True\<rparr>
                else p4);
          (p6, ps6, g6) =
            (if on_ground p5 \<and> \<bar>vx p5\<bar> > 2
             then (let q = p5\<lparr>dust_timer := dust_timer p5 + dt\<rparr>
                   in if dust_timer q > 0.1
                      then (let (off, g1) = randint (- 8) 8 g;
                                (ps1, g2) = add_dust ps
                                   (real_of_int (rect_centerx (pl_rect q) + off),
                                    real_of_int (rect_bottom (pl_rect q))) 5 g1
                            in (q\<lparr>dust_timer := 0\<rparr>, ps1, g2))
                      else (q, ps, g))
             else (p5, ps, g));
          p7 = p6\<lparr>animation_timer := animation_timer p6 + dt\<rparr>
      in (if squash_stretch p7 < 1.0
          then p7\<lparr>squash_stretch := min 1.0 (squash_stretch p7 + dt * 4)\<rparr> else p7, ps6, g6))"

definition physics ::
  "Player \<Rightarrow> real \<Rightarrow> Platform list \<Rightarrow> Particle list \<Rightarrow> rng \<Rightarrow> Player \<times> Particle list \<times> rng" where
  "physics p dt platforms ps g =
     (let (was_on_ground, p1, ps1, g1) = physics_resolve p platforms ps g
      in physics_finish was_on_ground p1 dt ps1 g1)"

section \<open>Game (gmae.py)\<close>

text \<open>
  The attributes that \<^verbatim>\<open>setup_level\<close> assigns are grouped in the record \<open>Level\<close>; the
  other attributes of \<^verbatim>\<open>Game\<close> are those that \<^verbatim>\<open>__init__\<close> assigns itself.
  \<open>best_time\<close> is \<open>None\<close> for \<^verbatim>\<open>float('inf')\<close>. Every reading of the clock
  (\<^verbatim>\<open>time.time()\<close>) is the parameter \<open>now\<close>.
\<close>

record Level =
  platforms :: "Platform list"
  magic_wall :: MagicWall
  spikes :: "Spike list"
  falling_stones :: "FallingStone list"
  door :: Door
  win_trigger :: Rect
  player :: Player

record Game =
  state :: GameState
  camera :: Camera
  particles :: "Particle list"
  start_time :: real
  death_time :: "real option"
  win_time :: "real option"
  best_time :: "real option"
  attempts :: int
  level :: Level

definition setup_level :: Level where
  "setup_level =
     \<lparr>platforms =
        [Platform_init 0 (HEIGHT - 50) WIDTH 50,
         Platform_init 120 (HEIGHT - 160) 200 20,
         Platform_init 400 (HEIGHT - 240) 160 20,
         Platform_init 640 (HEIGHT - 320) 180 20,
         Platform_init 900 (HEIGHT - 200) 200 20,
         Platform_init 1100 (HEIGHT - 280) 120 20,
         Platform_init 300 (HEIGHT - 120) 80 16,
         Platform_init 580 (HEIGHT - 160) 60 16,
         Platform_init 820 (HEIGHT - 240) 70 16],
      magic_wall = MagicWall_init 350 (HEIGHT - 140) 70 80,
      spikes =
        [Spike_init 180 (HEIGHT - 178) 32 26 False 0 None,
         Spike_init 450 (HEIGHT - 258) 32 26 True 2.0 None,
         Spike_init 700 (HEIGHT - 338) 32 26 False 0
           (Some \<lparr>mp_type = ''horizontal'', mp_speed = Some 2, mp_range = Some 60\<rparr>),
         Spike_init 950 (HEIGHT - 218) 32 26 True 1.0 None,
         Spike_init 1150 (HEIGHT - 298) 32 26 False 0
           (Some \<lparr>mp_type = ''vertical'', mp_speed = Some 1.5, mp_range = Some 30\<rparr>)],
      falling_stones =
        [FallingStone_init 480 50 (420, 540) 1.5,
         FallingStone_init 680 30 (600, 720) 1.0,
         FallingStone_init 980 40 (920, 1020) 2.0],
      door = Door_init (1140, HEIGHT - 340) (160, HEIGHT - 220),
      win_trigger = mk_rect (WIDTH - 60) 0 60 HEIGHT,
      player = Player_init 60 (HEIGHT - 100)\<rparr>"

definition Game_init :: "real \<Rightarrow> Game" where
  "Game_init now =
     \<lparr>state = PLAYING, camera = Camera_init, particles = [], start_time = now,
      death_time = None, win_time = None, best_time = None, attempts = 0,
      level = setup_level\<rparr>"

definition point_in_triangle ::
  "real \<times> real \<Rightarrow> (real \<times> real) \<times> (real \<times> real) \<times> (real \<times> real) \<Rightarrow> bool" where
  "point_in_triangle point triangle =
     (let (px, py) = point;
          ((x1, y1), (x2, y2), (x3, y3)) = triangle;
          denominator = (y2 - y3) * (x1 - x3) + (x3 - x2) * (y1 - y3)
      in if \<bar>denominator\<bar> < 0.001 then False
         else (let a = ((y2 - y3) * (px - x3) + (x3 - x2) * (py - y3)) / denominator;
                   b = ((y3 - y1) * (px - x3) + (x1 - x3) * (py - y3)) / denominator;
                   c = 1 - a - b
               in a \<ge> 0 \<and> b \<ge> 0 \<and> c \<ge> 0))"

definition ipoint :: "int \<times> int \<Rightarrow> real \<times> real" where
  "ipoint q = (real_of_int (fst q), real_of_int (snd q))"

definition corners :: "Rect \<Rightarrow> (int \<times> int) list" where
  "corners r =
     [(rect_left r, rect_top r), (rect_right r, rect_top r),
      (rect_left r, rect_bottom r), (rect_right r, rect_bottom r),
      (rect_centerx r, rect_centery r)]"

definition point_in_triangle_collision ::
  "Rect \<Rightarrow> (int \<times> int) \<times> (int \<times> int) \<times> (int \<times> int) \<Rightarrow> bool" where
  "point_in_triangle_collision r tri =
     list_ex (\<lambda>corner. point_in_triangle (ipoint corner)
                          (ipoint (fst tri), ipoint (fst (snd tri)), ipoint (snd (snd tri))))
             (corners r)"

definition kill_player :: "Game \<Rightarrow> real \<Rightarrow> rng \<Rightarrow> Game \<times> rng" where
  "kill_player gm now g =
     (let gm1 = gm\<lparr>state := DEAD, level := (level gm)\<lparr>player := (player (level gm))\<lparr>dead := True\<rparr>\<rparr>\<rparr>;
          gm2 = gm1\<lparr>death_time := Some now, attempts := attempts gm1 + 1\<rparr>;
          (ps, g1) = add_explosion (particles gm2)
                       (ipoint (rect_center (pl_rect (player (level gm2)))))
                       40 (255, 100, 100) (- 8, 8) g
      in (gm2\<lparr>particles := ps, camera := add_shake (camera gm2) 12 0.8\<rparr>, g1))"

definition win_game :: "Game \<Rightarrow> real \<Rightarrow> rng \<Rightarrow> Game \<times> rng" where
  "win_game gm now g =
     (let gm1 = gm\<lparr>state := WON, level := (level gm)\<lparr>player := (player (level gm))\<lparr>win := True\<rparr>\<rparr>\<rparr>;
          gm2 = gm1\<lparr>win_time := Some now\<rparr>;
          current_time = now - start_time gm2;
          gm3 = (if (case best_time gm2 of None \<Rightarrow> True | Some b \<Rightarrow> current_time < b)
                 then gm2\<lparr>best_time := Some current_time\<rparr> else gm2);
          (ps, g1) = add_explosion (particles gm3)
                       (ipoint (rect_center (pl_rect (player (level gm3)))))
                       60 COLOR_DOOR (- 6, 6) g
      in (gm3\<lparr>particles := ps, camera := add_shake (camera gm3) 6 0.5\<rparr>, g1))"

definition reset_game :: "Game \<Rightarrow> real \<Rightarrow> Game" where
  "reset_game gm now =
     gm\<lparr>state := PLAYING, start_time := now, death_time := None, win_time := None,
        level := setup_level, particles := [], camera := Camera_init\<rparr>"

text \<open>The first step of \<^verbatim>\<open>handle_collisions\<close>: the player's overlap with the magic wall
  registers one hit.\<close>

definition wall_collision :: "Game \<Rightarrow> rng \<Rightarrow> Game \<times> rng" where
  "wall_collision gm g =
     (let wall = magic_wall (level gm); pr = pl_rect (player (level gm))
      in if mw_alive wall \<and> colliderect pr (inflate (mw_rect wall) 5 5)
         then (let (destroyed, wall1) = hit wall;
                   gm1 = gm\<lparr>level := (level gm)\<lparr>magic_wall := wall1\<rparr>\<rparr>
               in if destroyed
                  then (let (ps, g1) = add_explosion (particles gm1) (ipoint (rect_center (mw_rect wall1)))
                                         50 COLOR_WALL_CRACK (- 5, 5) g
                        in (gm1\<lparr>particles := ps, camera := add_shake (camera gm1) 8 0.5\<rparr>, g1))
                  else (let (ps, g1) = add_explosion (particles gm1)
                                         (real_of_int (rect_centerx pr),
                                          real_of_int (rect_centery (mw_rect wall1)))
                                         20 COLOR_WALL_CRACK (- 5, 5) g
                        in (gm1\<lparr>particles := ps, camera := add_shake (camera gm1) 4 0.3\<rparr>, g1)))
         else (gm, g))"

definition spike_hits :: "Rect \<Rightarrow> Spike \<Rightarrow> bool" where
  "spike_hits pr s =
     (case get_danger_zone s of None \<Rightarrow> False
      | Some danger_zone \<Rightarrow> point_in_triangle_collision pr danger_zone)"

definition handle_collisions :: "Game \<Rightarrow> real \<Rightarrow> rng \<Rightarrow> Game \<times> rng" where
  "handle_collisions gm now g =
     (if state gm \<noteq> PLAYING then (gm, g)
      else (let (gm1, g1) = wall_collision gm g;
                pr = pl_rect (player (level gm1))
            in if list_ex (spike_hits pr) (spikes (level gm1)) then kill_player gm1 now g1
               else if list_ex (\<lambda>stone. colliderect (fs_rect stone) pr) (falling_stones (level gm1))
               then kill_player gm1 now g1
               else (let (d1, ps1, g2) = maybe_troll (door (level gm1)) pr (particles gm1) g1;
                         gm2 = gm1\<lparr>particles := ps1, level := (level gm1)\<lparr>door := d1\<rparr>\<rparr>;
                         gm3 = (if colliderect pr (win_trigger (level gm2))
                                then gm2\<lparr>level := (level gm2)\<lparr>door := set_open (door (level gm2))\<rparr>\<rparr>
                                else gm2)
                     in if check_win_collision (door (level gm3)) pr then win_game gm3 now g2
                        else (gm3, g2))))"

text \<open>The list that \<^verbatim>\<open>Game.update\<close> builds for the player's physics step.\<close>

definition platforms_for_collision :: "Game \<Rightarrow> Platform list" where
  "platforms_for_collision gm =
     (let wall = magic_wall (level gm)
      in if mw_alive wall
         then platforms (level gm) @
                [Platform_init (rect_x (mw_rect wall)) (rect_y (mw_rect wall))
                               (rect_w (mw_rect wall)) (rect_h (mw_rect wall))]
         else platforms (level gm))"

fun stones_loop ::
  "FallingStone list \<Rightarrow> int \<Rightarrow> real \<Rightarrow> Platform list \<Rightarrow> Particle list \<Rightarrow> rng
     \<Rightarrow> FallingStone list \<times> Particle list \<times> rng"
where
  "stones_loop [] player_x dt pfs ps g = ([], ps, g)"
| "stones_loop (stone # rest) player_x dt pfs ps g =
     (let (s1, ps1, g1) = FallingStone_update (trigger_check stone player_x) dt pfs ps g;
          (rest1, ps2, g2) = stones_loop rest player_x dt pfs ps1 g1
      in (s1 # rest1, ps2, g2))"

text \<open>\<^verbatim>\<open>Game.update\<close> below the two key tests: the player's input is applied while the
  game is in play.\<close>

definition after_control :: "Game \<Rightarrow> real \<Rightarrow> keys \<Rightarrow> Game" where
  "after_control gm dt ks =
     (if state gm = PLAYING
      then gm\<lparr>level := (level gm)\<lparr>player := control (player (level gm)) ks dt\<rparr>\<rparr>
      else gm)"

text \<open>Then everything up to the call of \<^verbatim>\<open>handle_collisions\<close>.\<close>

definition advance :: "Game \<Rightarrow> real \<Rightarrow> keys \<Rightarrow> rng \<Rightarrow> Game \<times> rng" where
  "advance gm dt ks g =
     (let gm1 = after_control gm dt ks;
          pfc = platforms_for_collision gm1;
          (p1, ps1, g1) = physics (player (level gm1)) dt pfc (particles gm1) g;
          lv1 = (level gm1)\<lparr>player := p1\<rparr>;
          lv2 = lv1\<lparr>spikes := map (\<lambda>s. Spike_update s dt) (spikes lv1)\<rparr>;
          (stones, ps2, g2) = stones_loop (falling_stones lv2) (rect_centerx (pl_rect p1)) dt
                                (platforms lv2) ps1 g1;
          lv3 = lv2\<lparr>falling_stones := stones\<rparr>;
          lv4 = lv3\<lparr>magic_wall := MagicWall_update (magic_wall lv3) dt\<rparr>;
          lv5 = lv4\<lparr>door := Door_update (door lv4) dt\<rparr>;
          ps3 = ParticleSystem_update ps2 dt;
          cam = Camera_update (follow (camera gm1) (pl_rect (player lv5)) 0.12) dt
      in (gm1\<lparr>level := lv5, particles := ps3, camera := cam\<rparr>, g2))"

text \<open>\<^verbatim>\<open>Game.update\<close> returns whether the game goes on.\<close>

definition update :: "Game \<Rightarrow> real \<Rightarrow> keys \<Rightarrow> real \<Rightarrow> rng \<Rightarrow> bool \<times> Game \<times> rng" where
  "update gm dt ks now g =
     (if ks K_r then (True, reset_game gm now, g)
      else if ks K_ESCAPE then (False, gm, g)
      else (let (gm1, g1) = advance gm dt ks g;
                (gm2, g2) = handle_collisions gm1 now g1
            in (True, gm2, g2)))"

section \<open>Hazards that only main.py has\<close>

record FakePlatform =
  fp_rect :: Rect
  fp_active :: bool
  fp_triggered :: bool
  disappear_timer :: real
  disappear_delay :: real
  fp_alpha :: int

definition FakePlatform_init :: "int \<Rightarrow> int \<Rightarrow> int \<Rightarrow> int \<Rightarrow> real \<Rightarrow> FakePlatform" where
  "FakePlatform_init a b c d del =
     \<lparr>fp_rect = mk_rect a b c d, fp_active = True, fp_triggered = False, disappear_timer = 0,
      disappear_delay = del, fp_alpha = 255\<rparr>"

definition trigger :: "FakePlatform \<Rightarrow> FakePlatform" where
  "trigger f =
     (if fp_active f \<and> \<not> fp_triggered f
      then f\<lparr>fp_triggered := True, disappear_timer := disappear_delay f\<rparr> else f)"

text \<open>\<^verbatim>\<open>FakePlatform.update\<close> divides by \<open>disappear_delay\<close>; the first component of the
  result is False when that raises ZeroDivisionError, and the platform is then as the
  statements before the division left it.\<close>

definition FakePlatform_update :: "FakePlatform \<Rightarrow> real \<Rightarrow> bool \<times> FakePlatform" where
  "FakePlatform_update f dt =
     (if fp_triggered f
      then (let f1 = f\<lparr>disappear_timer := disappear_timer f - dt\<rparr>
            in if disappear_timer f1 \<le> 0 then (True, f1\<lparr>fp_active := False\<rparr>)
               else if disappear_delay f1 = 0 then (False, f1)
               else (True, f1\<lparr>fp_alpha := py_int (255 * (disappear_timer f1 / disappear_delay f1))\<rparr>))
      else (True, f))"

record TeleportTrap =
  tt_rect :: Rect
  destination :: "int \<times> int"
  cooldown :: real
  cooldown_max :: real
  tt_pulse :: real

definition TeleportTrap_init :: "int \<Rightarrow> int \<Rightarrow> int \<Rightarrow> int \<Rightarrow> int \<times> int \<Rightarrow> TeleportTrap" where
  "TeleportTrap_init a b c d dest =
     \<lparr>tt_rect = mk_rect a b c d, destination = dest, cooldown = 0, cooldown_max = 3.0,
      tt_pulse = 0\<rparr>"

text \<open>Python's \<open>%\<close> on floats with a positive modulus.\<close>

definition fmod :: "real \<Rightarrow> real \<Rightarrow> real" where
  "fmod a m = a - m * real_of_int \<lfloor>a / m\<rfloor>"

definition TeleportTrap_update :: "TeleportTrap \<Rightarrow> real \<Rightarrow> TeleportTrap" where
  "TeleportTrap_update t dt =
     (let t1 = (if cooldown t > 0 then t\<lparr>cooldown := cooldown t - dt\<rparr> else t)
      in t1\<lparr>tt_pulse := fmod (tt_pulse t1 + dt * 5) (2 * pi)\<rparr>)"

definition check_teleport ::
  "TeleportTrap \<Rightarrow> Rect \<Rightarrow> ParticleSystem_web \<Rightarrow> rng
     \<Rightarrow> (int \<times> int) option \<times> TeleportTrap \<times> ParticleSystem_web \<times> rng"
where
  "check_teleport t player_rect ps g =
     (if cooldown t \<le> 0 \<and> colliderect player_rect (tt_rect t)
      then (let (ps1, g1) = add_explosion_web ps
                              (real_of_int (fst (rect_center player_rect)),
                               real_of_int (snd (rect_center player_rect)))
                              40 (100, 200, 255) (- 6, 6) g
            in (Some (destination t), t\<lparr>cooldown := cooldown_max t\<rparr>, ps1, g1))
      else (None, t, ps, g))"

record FakeDoor =
  fd_rect :: Rect
  fd_pulse :: real
  fd_triggered :: bool
  trigger_timer :: real

definition FakeDoor_init :: "int \<Rightarrow> int \<Rightarrow> FakeDoor" where
  "FakeDoor_init a b = \<lparr>fd_rect = mk_rect a b 40 60, fd_pulse = 0, fd_triggered = False,
                        trigger_timer = 0\<rparr>"

definition FakeDoor_update :: "FakeDoor \<Rightarrow> real \<Rightarrow> FakeDoor" where
  "FakeDoor_update d dt =
     (let d1 = d\<lparr>fd_pulse := fd_pulse d + dt * 2\<rparr>
      in if fd_triggered d1 then d1\<lparr>trigger_timer := trigger_timer d1 - dt\<rparr> else d1)"

definition check_collision :: "FakeDoor \<Rightarrow> Rect \<Rightarrow> bool" where
  "check_collision d player_rect = colliderect player_rect (inflate (fd_rect d) (- 10) (- 10))"

text \<open>The loop over the platforms in \<^verbatim>\<open>FallingStone.update\<close> of \<^verbatim>\<open>main.py\<close>, which
  visits every platform.\<close>

definition stone_collide_web ::
  "Platform \<Rightarrow> FallingStone \<times> ParticleSystem_web \<times> rng \<Rightarrow> FallingStone \<times> ParticleSystem_web \<times> rng"
where
  "stone_collide_web pf st =
     (let (s, ps, g) = st
      in if colliderect (fs_rect s) (pf_rect pf) \<and> fs_vy s > 0
         then (let s1 = s\<lparr>fs_rect := set_bottom (fs_rect s) (rect_top (pf_rect pf))\<rparr>;
                   s2 = s1\<lparr>fs_vy := - fs_vy s1 * 0.4\<rparr>;
                   s3 = s2\<lparr>fs_vx := fs_vx s2 * 0.7, angular_velocity := angular_velocity s2 * 0.7\<rparr>;
                   (ps1, g1) = add_explosion_web ps
                                 (real_of_int (rect_centerx (fs_rect s3)),
                                  real_of_int (rect_bottom (fs_rect s3)))
                                 (py_int (\<bar>fs_vy s3\<bar> * 1.5)) COLOR_DUST (- 5, 5) g;
                   s4 = s3\<lparr>bounces := bounces s3 + 1\<rparr>
               in (if bounces s4 \<ge> max_bounces s4 \<or> \<bar>fs_vy s4\<bar> < 2
                   then s4\<lparr>settled := True, fs_vy := 0, fs_vx := 0, angular_velocity := 0\<rparr>
                   else s4, ps1, g1))
         else (s, ps, g))"

definition FallingStone_update_web ::
  "FallingStone \<Rightarrow> real \<Rightarrow> Platform list \<Rightarrow> ParticleSystem_web \<Rightarrow> rng
     \<Rightarrow> FallingStone \<times> ParticleSystem_web \<times> rng"
where
  "FallingStone_update_web s dt pfs ps g =
     (let (s1, g1) = warning_step s dt g
      in if dropped s1 \<and> \<not> settled s1
         then (let s2 = s1\<lparr>fs_vy := fs_vy s1 + GRAVITY * 1.5 * dt\<rparr>;
                   s3 = s2\<lparr>fs_rect := (fs_rect s2)\<lparr>rect_y := rect_y (fs_rect s2) + py_int (fs_vy s2)\<rparr>\<rparr>;
                   s4 = s3\<lparr>fs_rect := (fs_rect s3)\<lparr>rect_x := rect_x (fs_rect s3) + py_int (fs_vx s3)\<rparr>\<rparr>;
                   s5 = s4\<lparr>rotation := rotation s4 + angular_velocity s4\<rparr>
               in fold stone_collide_web pfs (s5, ps, g1))
         else (s1, ps, g1))"

section \<open>Door and player (main.py)\<close>

text \<open>\<open>active_rect\<close> refers to \<open>rect1\<close> or to \<open>rect2\<close>; no rectangle of the door is
  ever changed in place, so it is held by value.\<close>

record Door_web =
  rect1 :: Rect
  rect2 :: Rect
  open_web :: bool
  trolled_once_web :: bool
  troll_cooldown :: real
  active_rect :: Rect
  glow_phase :: real

definition Door_init_web :: "int \<times> int \<Rightarrow> int \<times> int \<Rightarrow> Door_web" where
  "Door_init_web pos1 pos2 =
     \<lparr>rect1 = mk_rect (fst pos1) (snd pos1) 40 60, rect2 = mk_rect (fst pos2) (snd pos2) 40 60,
      open_web = False, trolled_once_web = False, troll_cooldown = 0,
      active_rect = mk_rect (fst pos1) (snd pos1) 40 60, glow_phase = 0\<rparr>"

definition set_open_web :: "Door_web \<Rightarrow> Door_web" where
  "set_open_web d = d\<lparr>open_web := True\<rparr>"

text \<open>\<^verbatim>\<open>maybe_troll\<close> of \<^verbatim>\<open>main.py\<close> returns early when the door has trolled, is open or
  cools down, and then tests the overlap.\<close>

definition troll_blocked_web :: "Door_web \<Rightarrow> bool" where
  "troll_blocked_web d = (trolled_once_web d \<or> open_web d \<or> troll_cooldown d > 0)"

definition maybe_troll_web ::
  "Door_web \<Rightarrow> Rect \<Rightarrow> ParticleSystem_web \<Rightarrow> rng \<Rightarrow> Door_web \<times> ParticleSystem_web \<times> rng" where
  "maybe_troll_web d player_rect ps g =
     (if troll_blocked_web d then (d, ps, g)
      else if colliderect player_rect (inflate (rect1 d) 60 60)
      then (let d1 = d\<lparr>trolled_once_web := True, troll_cooldown := 2.0\<rparr>;
                d2 = d1\<lparr>active_rect := rect2 d1\<rparr>;
                (ps1, g1) = add_explosion_web ps (ipoint (rect_center (rect1 d2)))
                              30 (100, 100, 255) (- 5, 5) g;
                (ps2, g2) = add_explosion_web ps1 (ipoint (rect_center (rect2 d2)))
                              30 (100, 100, 255) (- 5, 5) g1
            in (d2, ps2, g2))
      else (d, ps, g))"

definition check_win_collision_web :: "Door_web \<Rightarrow> Rect \<Rightarrow> bool" where
  "check_win_collision_web d player_rect =
     (if open_web d \<and> colliderect player_rect (active_rect d) then True else False)"

definition Door_update_web :: "Door_web \<Rightarrow> real \<Rightarrow> Door_web" where
  "Door_update_web d dt =
     (let d1 = d\<lparr>glow_phase := glow_phase d + dt * 3\<rparr>
      in if troll_cooldown d1 > 0 then d1\<lparr>troll_cooldown := troll_cooldown d1 - dt\<rparr> else d1)"

text \<open>\<^verbatim>\<open>Player\<close> of \<^verbatim>\<open>main.py\<close>; the cached surfaces are left out.\<close>

record Player_web =
  pl_rect_web :: Rect
  vx_web :: real
  vy_web :: real
  on_ground_web :: bool
  facing_right_web :: bool
  can_double_jump_web :: bool
  has_double_jumped_web :: bool
  jump_buffer :: real
  coyote_time_web :: real
  dead_web :: bool
  win_web :: bool
  blink_timer :: real
  squash :: real
  stretch :: real

definition Player_init_web :: "int \<Rightarrow> int \<Rightarrow> Player_web" where
  "Player_init_web a b =
     \<lparr>pl_rect_web = mk_rect a b 30 50, vx_web = 0, vy_web = 0, on_ground_web = False,
      facing_right_web = True, can_double_jump_web = True, has_double_jumped_web = False,
      jump_buffer = 0, coyote_time_web = 0, dead_web = False, win_web = False,
      blink_timer = 0, squash = 1.0, stretch = 1.0\<rparr>"

text \<open>\<^verbatim>\<open>Player.control\<close> of \<^verbatim>\<open>main.py\<close>, after the test for a dead or winning player:
  first the horizontal movement.\<close>

definition control_move_web :: "Player_web \<Rightarrow> keys \<Rightarrow> Player_web" where
  "control_move_web p ks =
     (let (m1, p1) = (if ks K_LEFT \<or> ks K_a then (- 1, p\<lparr>facing_right_web := False\<rparr>)
                      else (0::int, p));
          (move_x, p2) = (if ks K_RIGHT \<or> ks K_d then (1, p1\<lparr>facing_right_web := True\<rparr>)
                          else (m1, p1));
          control_factor = (if on_ground_web p2 then 1.0 else AIR_CONTROL)
      in p2\<lparr>vx_web := vx_web p2 + real_of_int move_x * control_factor\<rparr>)"

text \<open>Then the two timers and the jump input.\<close>

definition control_jump_web :: "Player_web \<Rightarrow> keys \<Rightarrow> real \<Rightarrow> Player_web" where
  "control_jump_web p3 ks dt =
     (let p4 = (if jump_buffer p3 > 0 then p3\<lparr>jump_buffer := jump_buffer p3 - dt\<rparr> else p3);
          p5 = (if coyote_time_web p4 > 0
                then p4\<lparr>coyote_time_web := coyote_time_web p4 - dt\<rparr> else p4)
      in if ks K_UP \<or> ks K_w \<or> ks K_SPACE
         then (if on_ground_web p5 \<or> coyote_time_web p5 > 0
               then p5\<lparr>vy_web := JUMP_VELOCITY, on_ground_web := False, coyote_time_web := 0,
                       can_double_jump_web := True, has_double_jumped_web := False,
                       squash := 0.7, stretch := 1.3\<rparr>
               else if can_double_jump_web p5 \<and> \<not> has_double_jumped_web p5
               then p5\<lparr>vy_web := DOUBLE_JUMP_VELOCITY, can_double_jump_web := False,
                       has_double_jumped_web := True, squash := 0.7, stretch := 1.3\<rparr>
               else p5\<lparr>jump_buffer := 0.15\<rparr>)
         else p5)"

definition control_web :: "Player_web \<Rightarrow> keys \<Rightarrow> real \<Rightarrow> Player_web" where
  "control_web p ks dt =
     (if dead_web p \<or> win_web p then p else control_jump_web (control_move_web p ks) ks dt)"

definition horizontal_collide_web :: "Platform \<Rightarrow> Player_web \<Rightarrow> Player_web" where
  "horizontal_collide_web pf p =
     (if colliderect (pl_rect_web p) (pf_rect pf)
      then (if vx_web p > 0
            then p\<lparr>pl_rect_web := set_right (pl_rect_web p) (rect_left (pf_rect pf)), vx_web := 0\<rparr>
            else if vx_web p < 0
            then p\<lparr>pl_rect_web := set_left (pl_rect_web p) (rect_right (pf_rect pf)), vx_web := 0\<rparr>
            else p)
      else p)"

text \<open>The body of the vertical loop of \<^verbatim>\<open>main.py\<close>: a landing fires a buffered jump.\<close>

definition vertical_collide_web ::
  "Platform \<Rightarrow> Player_web \<times> ParticleSystem_web \<times> rng \<Rightarrow> Player_web \<times> ParticleSystem_web \<times> rng"
where
  "vertical_collide_web pf st =
     (let (p, ps, g) = st
      in if colliderect (pl_rect_web p) (pf_rect pf)
         then (if vy_web p > 0
               then (let p1 = p\<lparr>pl_rect_web := set_bottom (pl_rect_web p) (rect_top (pf_rect pf)),
                                on_ground_web := True\<rparr>
                     in if jump_buffer p1 > 0
                        then (p1\<lparr>vy_web := JUMP_VELOCITY, on_ground_web := False, jump_buffer := 0,
                                 can_double_jump_web := True, has_double_jumped_web := False,
                                 squash := 0.7, stretch := 1.3\<rparr>, ps, g)
                        else (let p2 = p1\<lparr>vy_web := 0, squash := 1.3, stretch := 0.7\<rparr>
                              in if \<bar>vy_web p2\<bar> > 2
                                 then (let (ps1, g1) = add_dust_web ps
                                            (real_of_int (rect_centerx (pl_rect_web p2)),
                                             real_of_int (rect_bottom (pl_rect_web p2)))
                                            (py_int (\<bar>vy_web p2\<bar> / 2)) g
                                       in (p2, ps1, g1))
                                 else (p2, ps, g)))
               else if vy_web p < 0
               then (p\<lparr>pl_rect_web := set_top (pl_rect_web p) (rect_bottom (pf_rect pf)),
                       vy_web := 0\<rparr>, ps, g)
               else (p, ps, g))
         else (p, ps, g))"

text \<open>\<^verbatim>\<open>Player.physics\<close> of \<^verbatim>\<open>main.py\<close>, for a player who is neither dead nor has won,
  up to the start of the vertical collision loop: friction, gravity, the horizontal move
  and its collisions, the vertical move.\<close>

definition physics_move_web :: "Player_web \<Rightarrow> Platform list \<Rightarrow> bool \<times> Player_web" where
  "physics_move_web p pfs =
     (let p1 = (if on_ground_web p then p\<lparr>vx_web := vx_web p * FRICTION\<rparr>
                else p\<lparr>vx_web := vx_web p * AIR_RESISTANCE\<rparr>);
          p2 = p1\<lparr>vx_web := max (- MOVE_SPEED) (min MOVE_SPEED (vx_web p1))\<rparr>;
          p3 = p2\<lparr>vy_web := vy_web p2 + GRAVITY\<rparr>;
          p4 = (if vy_web p3 > TERMINAL_VELOCITY then p3\<lparr>vy_web := TERMINAL_VELOCITY\<rparr> else p3);
          p5 = p4\<lparr>pl_rect_web := (pl_rect_web p4)
                  \<lparr>rect_x := py_int (real_of_int (rect_x (pl_rect_web p4)) + vx_web p4)\<rparr>\<rparr>;
          p6 = fold horizontal_collide_web pfs p5;
          was_on_ground = on_ground_web p6;
          p7 = p6\<lparr>on_ground_web := False\<rparr>
      in (was_on_ground,
          p7\<lparr>pl_rect_web := (pl_rect_web p7)
               \<lparr>rect_y := py_int (real_of_int (rect_y (pl_rect_web p7)) + vy_web p7)\<rparr>\<rparr>))"

text \<open>Then the vertical collision loop.\<close>

definition physics_resolve_web ::
  "Player_web \<Rightarrow> Platform list \<Rightarrow> ParticleSystem_web \<Rightarrow> rng
     \<Rightarrow> bool \<times> Player_web \<times> ParticleSystem_web \<times> rng"
where
  "physics_resolve_web p pfs ps g =
     (let (was_on_ground, p8) = physics_move_web p pfs;
          (p9, ps9, g9) = fold vertical_collide_web pfs (p8, ps, g)
      in (was_on_ground, p9, ps9, g9))"

definition physics_web ::
  "Player_web \<Rightarrow> real \<Rightarrow> Platform list \<Rightarrow> ParticleSystem_web \<Rightarrow> rng
     \<Rightarrow> Player_web \<times> ParticleSystem_web \<times> rng"
where
  "physics_web p dt pfs ps g =
     (if dead_web p \<or> win_web p then (p, ps, g)
      else (let (was_on_ground, p1, ps1, g1) = physics_resolve_web p pfs ps g;
                p2 = (if was_on_ground \<and> \<not> on_ground_web p1 then p1\<lparr>coyote_time_web := 0.1\<rparr> else p1);
                p3 = p2\<lparr>squash := squash p2 + (1.0 - squash p2) * 0.2\<rparr>;
                p4 = p3\<lparr>stretch := stretch p3 + (1.0 - stretch p3) * 0.2\<rparr>
            in (if blink_timer p4 > 0 then p4\<lparr>blink_timer := blink_timer p4 - dt\<rparr> else p4, ps1, g1)))"

section \<open>Game (main.py)\<close>

record Level_web =
  platforms_web :: "Platform list"
  fake_platforms :: "FakePlatform list"
  magic_wall_web :: MagicWall
  spikes_web :: "Spike list"
  falling_stones_web :: "FallingStone list"
  teleport_traps :: "TeleportTrap list"
  door_web :: Door_web
  fake_doors :: "FakeDoor list"
  win_trigger_web :: Rect
  player_web :: Player_web

record Game_web =
  state_web :: GameState
  start_time_web :: real
  death_time_web :: "real option"
  win_time_web :: "real option"
  attempts_web :: int
  best_time_web :: "real option"
  particle_system :: ParticleSystem_web
  camera_web :: Camera
  level_web :: Level_web

definition setup_level_web :: Level_web where
  "setup_level_web =
     \<lparr>platforms_web =
        [Platform_init 0 (HEIGHT - 50) WIDTH 50,
         Platform_init 120 (HEIGHT - 160) 220 20,
         Platform_init 400 (HEIGHT - 240) 180 20,
         Platform_init 640 (HEIGHT - 320) 200 20,
         Platform_init 900 (HEIGHT - 200) 220 20,
         Platform_init 1100 (HEIGHT - 280) 140 20,
         Platform_init 300 (HEIGHT - 120) 80 16,
         Platform_init 580 (HEIGHT - 160) 60 16,
         Platform_init 820 (HEIGHT - 240) 70 16],
      fake_platforms =
        [FakePlatform_init 220 (HEIGHT - 200) 60 16 0.8,
         FakePlatform_init 750 (HEIGHT - 260) 50 16 0.7],
      magic_wall_web = MagicWall_init 350 (HEIGHT - 140) 70 80,
      spikes_web =
        [Spike_init 180 (HEIGHT - 178) 32 26 False 0 None,
         Spike_init 450 (HEIGHT - 258) 32 26 True 1.5 None,
         Spike_init 700 (HEIGHT - 338) 32 26 False 0
           (Some \<lparr>mp_type = ''horizontal'', mp_speed = Some 2, mp_range = Some 60\<rparr>),
         Spike_init 950 (HEIGHT - 218) 32 26 True 1.2 None,
         Spike_init 580 (HEIGHT - 178) 32 26 True 0.8 None],
      falling_stones_web =
        [FallingStone_init 480 50 (420, 540) 1.5,
         FallingStone_init 680 30 (600, 720) 1.2,
         FallingStone_init 980 40 (920, 1020) 1.0,
         FallingStone_init 350 40 (300, 400) 0.8],
      teleport_traps = [TeleportTrap_init 900 (HEIGHT - 220) 30 10 (600, HEIGHT - 340)],
      door_web = Door_init_web (1140, HEIGHT - 340) (160, HEIGHT - 220),
      fake_doors = [FakeDoor_init 500 (HEIGHT - 260)],
      win_trigger_web = mk_rect (WIDTH - 60) 0 60 HEIGHT,
      player_web = Player_init_web 60 (HEIGHT - 100)\<rparr>"

definition Game_init_web :: "real \<Rightarrow> Game_web" where
  "Game_init_web now =
     \<lparr>state_web = PLAYING, start_time_web = now, death_time_web = None, win_time_web = None,
      attempts_web = 1, best_time_web = None, particle_system = ParticleSystem_init_web,
      camera_web = Camera_init, level_web = setup_level_web\<rparr>"

definition kill_player_web :: "Game_web \<Rightarrow> real \<Rightarrow> rng \<Rightarrow> Game_web \<times> rng" where
  "kill_player_web gm now g =
     (let gm1 = gm\<lparr>state_web := DEAD,
                   level_web := (level_web gm)\<lparr>player_web := (player_web (level_web gm))\<lparr>dead_web := True\<rparr>\<rparr>\<rparr>;
          gm2 = gm1\<lparr>death_time_web := Some now, attempts_web := attempts_web gm1 + 1\<rparr>;
          (ps, g1) = add_explosion_web (particle_system gm2)
                       (ipoint (rect_center (pl_rect_web (player_web (level_web gm2)))))
                       40 (255, 100, 100) (- 8, 8) g
      in (gm2\<lparr>particle_system := ps, camera_web := add_shake (camera_web gm2) 12 0.8\<rparr>, g1))"

definition win_game_web :: "Game_web \<Rightarrow> real \<Rightarrow> rng \<Rightarrow> Game_web \<times> rng" where
  "win_game_web gm now g =
     (let gm1 = gm\<lparr>state_web := WON,
                   level_web := (level_web gm)\<lparr>player_web := (player_web (level_web gm))\<lparr>win_web := True\<rparr>\<rparr>\<rparr>;
          gm2 = gm1\<lparr>win_time_web := Some now\<rparr>;
          current_time = now - start_time_web gm2;
          gm3 = (if (case best_time_web gm2 of None \<Rightarrow> True | Some b \<Rightarrow> current_time < b)
                 then gm2\<lparr>best_time_web := Some current_time\<rparr> else gm2);
          (ps, g1) = add_explosion_web (particle_system gm3)
                       (ipoint (rect_center (pl_rect_web (player_web (level_web gm3)))))
                       60 COLOR_DOOR (- 6, 6) g
      in (gm3\<lparr>particle_system := ps, camera_web := add_shake (camera_web gm3) 6 0.5\<rparr>, g1))"

definition reset_game_web :: "Game_web \<Rightarrow> real \<Rightarrow> Game_web" where
  "reset_game_web gm now =
     gm\<lparr>state_web := PLAYING, start_time_web := now, death_time_web := None,
        win_time_web := None, level_web := setup_level_web,
        particle_system := ParticleSystem_init_web, camera_web := Camera_init\<rparr>"

definition wall_collision_web :: "Game_web \<Rightarrow> rng \<Rightarrow> Game_web \<times> rng" where
  "wall_collision_web gm g =
     (let wall = magic_wall_web (level_web gm); pr = pl_rect_web (player_web (level_web gm))
      in if mw_alive wall \<and> colliderect pr (inflate (mw_rect wall) 5 5)
         then (let (destroyed, wall1) = hit wall;
                   gm1 = gm\<lparr>level_web := (level_web gm)\<lparr>magic_wall_web := wall1\<rparr>\<rparr>
               in if destroyed
                  then (let (ps, g1) = add_explosion_web (particle_system gm1)
                                         (ipoint (rect_center (mw_rect wall1)))
                                         10 COLOR_WALL_CRACK (- 5, 5) g
                        in (gm1\<lparr>particle_system := ps,
                                camera_web := add_shake (camera_web gm1) 6 0.4\<rparr>, g1))
                  else (let (ps, g1) = add_explosion_web (particle_system gm1)
                                         (real_of_int (rect_centerx pr),
                                          real_of_int (rect_centery (mw_rect wall1)))
                                         5 COLOR_WALL_CRACK (- 5, 5) g
                        in (gm1\<lparr>particle_system := ps,
                                camera_web := add_shake (camera_web gm1) 3 0.2\<rparr>, g1)))
         else (gm, g))"

text \<open>The loop over the fake platforms in \<^verbatim>\<open>handle_collisions\<close>.\<close>

definition fake_platform_collide :: "Player_web \<Rightarrow> FakePlatform \<Rightarrow> FakePlatform list \<times> Camera
  \<Rightarrow> FakePlatform list \<times> Camera" where
  "fake_platform_collide p f acc =
     (let (done, cam) = acc
      in if fp_active f \<and> \<not> fp_triggered f \<and> colliderect (pl_rect_web p) (fp_rect f) \<and> vy_web p > 0
         then (done @ [trigger f], add_shake cam 1 0.1)
         else (done @ [f], cam))"

text \<open>The loop over the teleport traps, which stops at the first trap that fires.\<close>

fun teleport_loop ::
  "TeleportTrap list \<Rightarrow> Player_web \<Rightarrow> ParticleSystem_web \<Rightarrow> Camera \<Rightarrow> rng
     \<Rightarrow> TeleportTrap list \<times> Player_web \<times> ParticleSystem_web \<times> Camera \<times> rng"
where
  "teleport_loop [] p ps cam g = ([], p, ps, cam, g)"
| "teleport_loop (t # ts) p ps cam g =
     (let (new_pos, t1, ps1, g1) = check_teleport t (pl_rect_web p) ps g
      in case new_pos of
           Some q \<Rightarrow>
             (t1 # ts,
              p\<lparr>pl_rect_web := (pl_rect_web p)\<lparr>rect_x := fst q, rect_y := snd q\<rparr>,
                vx_web := 0, vy_web := 0\<rparr>,
              ps1, add_shake cam 3 0.3, g1)
         | None \<Rightarrow>
             (let (ts1, p1, ps2, cam1, g2) = teleport_loop ts p ps1 cam g1
              in (t1 # ts1, p1, ps2, cam1, g2)))"

text \<open>\<^verbatim>\<open>handle_collisions\<close> of \<^verbatim>\<open>main.py\<close>. Nothing in its body raises, so the handler
  of the enclosing \<^verbatim>\<open>try\<close> never runs.\<close>

definition handle_collisions_web :: "Game_web \<Rightarrow> real \<Rightarrow> rng \<Rightarrow> Game_web \<times> rng" where
  "handle_collisions_web gm now g =
     (if state_web gm \<noteq> PLAYING then (gm, g)
      else (let (gm1, g1) = wall_collision_web gm g;
                lv1 = level_web gm1;
                (fps, cam1) = fold (fake_platform_collide (player_web lv1)) (fake_platforms lv1)
                                   ([], camera_web gm1);
                (traps, p1, ps1, cam2, g2) =
                   teleport_loop (teleport_traps lv1) (player_web lv1) (particle_system gm1) cam1 g1;
                gm2 = gm1\<lparr>level_web := lv1\<lparr>fake_platforms := fps, teleport_traps := traps,
                                              player_web := p1\<rparr>,
                          particle_system := ps1, camera_web := cam2\<rparr>;
                pr = pl_rect_web p1
            in if list_ex (\<lambda>d. check_collision d pr) (fake_doors (level_web gm2))
               then kill_player_web gm2 now g2
               else if list_ex (spike_hits pr) (spikes_web (level_web gm2))
               then kill_player_web gm2 now g2
               else if list_ex (\<lambda>stone. colliderect (fs_rect stone) pr)
                               (falling_stones_web (level_web gm2))
               then kill_player_web gm2 now g2
               else (let (d1, ps2, g3) = maybe_troll_web (door_web (level_web gm2)) pr
                                           (particle_system gm2) g2;
                         gm3 = gm2\<lparr>particle_system := ps2,
                                   level_web := (level_web gm2)\<lparr>door_web := d1\<rparr>\<rparr>;
                         gm4 = (if colliderect pr (win_trigger_web (level_web gm3))
                                then gm3\<lparr>level_web := (level_web gm3)
                                          \<lparr>door_web := set_open_web (door_web (level_web gm3))\<rparr>\<rparr>
                                else gm3)
                     in if check_win_collision_web (door_web (level_web gm4)) pr
                        then win_game_web gm4 now g3
                        else (gm4, g3))))"

text \<open>The list that \<^verbatim>\<open>Game.update\<close> of \<^verbatim>\<open>main.py\<close> builds for the player's physics
  step; \<open>player_x\<close> is the centre of the player sampled after \<^verbatim>\<open>control\<close>.\<close>

definition near :: "Rect \<Rightarrow> int \<Rightarrow> int \<Rightarrow> bool" where
  "near r player_x d = (\<bar>rect_centerx r - player_x\<bar> < d)"

definition platforms_for_collision_web :: "Level_web \<Rightarrow> int \<Rightarrow> Platform list" where
  "platforms_for_collision_web lv player_x =
     (let l1 = filter (\<lambda>p. near (pf_rect p) player_x 800) (platforms_web lv);
          l2 = l1 @ map (\<lambda>fake. Platform_init (rect_x (fp_rect fake)) (rect_y (fp_rect fake))
                                              (rect_w (fp_rect fake)) (rect_h (fp_rect fake)))
                        (filter (\<lambda>fake. fp_active fake \<and> \<not> fp_triggered fake
                                         \<and> near (fp_rect fake) player_x 800)
                                (fake_platforms lv));
          wall = magic_wall_web lv
      in if mw_alive wall \<and> near (mw_rect wall) player_x 800
         then l2 @ [Platform_init (rect_x (mw_rect wall)) (rect_y (mw_rect wall))
                                  (rect_w (mw_rect wall)) (rect_h (mw_rect wall))]
         else l2)"

text \<open>The loop that updates the fake platforms stops at the first one whose update
  raises; the enclosing \<^verbatim>\<open>try\<close> prints the error and the frame goes on.\<close>

fun update_fake_platforms :: "FakePlatform list \<Rightarrow> int \<Rightarrow> real \<Rightarrow> FakePlatform list" where
  "update_fake_platforms [] player_x dt = []"
| "update_fake_platforms (f # fs) player_x dt =
     (if near (fp_rect f) player_x 800
      then (let (ok, f1) = FakePlatform_update f dt
            in if ok then f1 # update_fake_platforms fs player_x dt else f1 # fs)
      else f # update_fake_platforms fs player_x dt)"

fun stones_loop_web ::
  "FallingStone list \<Rightarrow> int \<Rightarrow> real \<Rightarrow> Platform list \<Rightarrow> ParticleSystem_web \<Rightarrow> rng
     \<Rightarrow> FallingStone list \<times> ParticleSystem_web \<times> rng"
where
  "stones_loop_web [] player_x dt pfs ps g = ([], ps, g)"
| "stones_loop_web (stone # rest) player_x dt pfs ps g =
     (let (s1, ps1, g1) =
            (if near (fs_rect stone) player_x 1000
             then FallingStone_update_web (trigger_check stone player_x) dt pfs ps g
             else (stone, ps, g));
          (rest1, ps2, g2) = stones_loop_web rest player_x dt pfs ps1 g1
      in (s1 # rest1, ps2, g2))"

text \<open>\<^verbatim>\<open>Game.update\<close> of \<^verbatim>\<open>main.py\<close> below the two key tests, up to the point where
  the collision list is built: the game then, and the sampled \<open>player_x\<close>.\<close>

definition before_physics_web :: "Game_web \<Rightarrow> real \<Rightarrow> keys \<Rightarrow> Game_web \<times> int" where
  "before_physics_web gm dt ks =
     (let gm1 = (if state_web gm = PLAYING
                 then gm\<lparr>level_web := (level_web gm)
                           \<lparr>player_web := control_web (player_web (level_web gm)) ks dt\<rparr>\<rparr>
                 else gm);
          lv = level_web gm1;
          player_x = rect_centerx (pl_rect_web (player_web lv));
          lv1 = lv\<lparr>fake_platforms := update_fake_platforms (fake_platforms lv) player_x dt\<rparr>;
          lv2 = lv1\<lparr>teleport_traps :=
                   map (\<lambda>t. if near (tt_rect t) player_x 800 then TeleportTrap_update t dt else t)
                       (teleport_traps lv1)\<rparr>;
          lv3 = lv2\<lparr>fake_doors :=
                   map (\<lambda>d. if near (fd_rect d) player_x 800 then FakeDoor_update d dt else d)
                       (fake_doors lv2)\<rparr>
      in (gm1\<lparr>level_web := lv3\<rparr>, player_x))"

definition advance_web :: "Game_web \<Rightarrow> real \<Rightarrow> keys \<Rightarrow> rng \<Rightarrow> Game_web \<times> rng" where
  "advance_web gm dt ks g =
     (let (gm1, player_x) = before_physics_web gm dt ks;
          lv3 = level_web gm1;
          pfc = platforms_for_collision_web lv3 player_x;
          (p1, ps1, g1) = physics_web (player_web lv3) dt pfc (particle_system gm1) g;
          lv4 = lv3\<lparr>player_web := p1\<rparr>;
          lv5 = lv4\<lparr>spikes_web :=
                   map (\<lambda>s. if near (sp_rect s) player_x 800 then Spike_update s dt else s)
                       (spikes_web lv4)\<rparr>;
          (stones, ps2, g2) = stones_loop_web (falling_stones_web lv5) player_x dt pfc ps1 g1;
          lv6 = lv5\<lparr>falling_stones_web := stones\<rparr>;
          lv7 = (if near (mw_rect (magic_wall_web lv6)) player_x 800
                 then lv6\<lparr>magic_wall_web := MagicWall_update (magic_wall_web lv6) dt\<rparr> else lv6);
          lv8 = lv7\<lparr>door_web := Door_update_web (door_web lv7) dt\<rparr>;
          ps3 = ParticleSystem_update_web ps2 dt;
          cam = Camera_update (follow (camera_web gm1) (pl_rect_web (player_web lv8)) 0.15) dt
      in (gm1\<lparr>level_web := lv8, particle_system := ps3, camera_web := cam\<rparr>, g2))"

definition update_web :: "Game_web \<Rightarrow> real \<Rightarrow> keys \<Rightarrow> real \<Rightarrow> rng \<Rightarrow> bool \<times> Game_web \<times> rng" where
  "update_web gm dt ks now g =
     (if ks K_r then (True, reset_game_web gm now, g)
      else if ks K_ESCAPE then (False, gm, g)
      else (let (gm1, g1) = advance_web gm dt ks g;
                (gm2, g2) = handle_collisions_web gm1 now g1
            in (True, gm2, g2)))"

section \<open>Runs\<close>

text \<open>A magic wall receives hits and timer updates in any order.\<close>

datatype wall_event = Hit | Tick real

fun wall_run :: "MagicWall \<Rightarrow> wall_event list \<Rightarrow> MagicWall" where
  "wall_run w [] = w"
| "wall_run w (Hit # es) = wall_run (snd (hit w)) es"
| "wall_run w (Tick dt # es) = wall_run (MagicWall_update w dt) es"

text \<open>Any sequence of calls on a particle system: the one of \<^verbatim>\<open>gmae.py\<close>, which is its
  list of particles, and the one of \<^verbatim>\<open>main.py\<close>.\<close>

datatype particle_op =
    AddExplosion "real \<times> real" int color "real \<times> real"
  | AddDust "real \<times> real" int
  | Update real

fun particle_run :: "Particle list \<Rightarrow> particle_op list \<Rightarrow> rng \<Rightarrow> Particle list \<times> rng" where
  "particle_run ps [] g = (ps, g)"
| "particle_run ps (AddExplosion pos count col vr # ops) g =
     (let (ps1, g1) = add_explosion ps pos count col vr g in particle_run ps1 ops g1)"
| "particle_run ps (AddDust pos count # ops) g =
     (let (ps1, g1) = add_dust ps pos count g in particle_run ps1 ops g1)"
| "particle_run ps (Update dt # ops) g = particle_run (ParticleSystem_update ps dt) ops g"

fun particle_run_web ::
  "ParticleSystem_web \<Rightarrow> particle_op list \<Rightarrow> rng \<Rightarrow> ParticleSystem_web \<times> rng" where
  "particle_run_web s [] g = (s, g)"
| "particle_run_web s (AddExplosion pos count col vr # ops) g =
     (let (s1, g1) = add_explosion_web s pos count col vr g in particle_run_web s1 ops g1)"
| "particle_run_web s (AddDust pos count # ops) g =
     (let (s1, g1) = add_dust_web s pos count g in particle_run_web s1 ops g1)"
| "particle_run_web s (Update dt # ops) g = particle_run_web (ParticleSystem_update_web s dt) ops g"

text \<open>The frames of one falling stone: in each, \<^verbatim>\<open>Game.update\<close> calls \<^verbatim>\<open>trigger_check\<close>
  with the player's x-position and then \<^verbatim>\<open>update\<close> with the elapsed time. In
  \<^verbatim>\<open>main.py\<close> a frame in which the stone is 1000 pixels or more from the player skips
  both calls.\<close>

fun stone_run ::
  "FallingStone \<Rightarrow> (int \<times> real) list \<Rightarrow> Platform list \<Rightarrow> Particle list \<Rightarrow> rng
     \<Rightarrow> FallingStone \<times> Particle list \<times> rng"
where
  "stone_run s [] pfs ps g = (s, ps, g)"
| "stone_run s ((player_x, dt) # frames) pfs ps g =
     (let (s1, ps1, g1) = FallingStone_update (trigger_check s player_x) dt pfs ps g
      in stone_run s1 frames pfs ps1 g1)"

fun stone_run_web ::
  "FallingStone \<Rightarrow> (int \<times> real) list \<Rightarrow> Platform list \<Rightarrow> ParticleSystem_web \<Rightarrow> rng
     \<Rightarrow> FallingStone \<times> ParticleSystem_web \<times> rng"
where
  "stone_run_web s [] pfs ps g = (s, ps, g)"
| "stone_run_web s ((player_x, dt) # frames) pfs ps g =
     (let (s1, ps1, g1) =
            (if near (fs_rect s) player_x 1000
             then FallingStone_update_web (trigger_check s player_x) dt pfs ps g
             else (s, ps, g))
      in stone_run_web s1 frames pfs ps1 g1)"

text \<open>What happens to a door within one session: \<^verbatim>\<open>handle_collisions\<close> calls
  \<^verbatim>\<open>maybe_troll\<close> with the player's rectangle and \<^verbatim>\<open>set_open\<close>, \<^verbatim>\<open>Game.update\<close> calls
  \<^verbatim>\<open>update\<close>. \<open>door_swaps\<close> counts the events at which \<^verbatim>\<open>maybe_troll\<close> moves the door.\<close>

datatype door_event = Troll Rect | SetOpen | DoorTick real

fun door_step :: "door_event \<Rightarrow> Door \<times> Particle list \<times> rng \<Rightarrow> Door \<times> Particle list \<times> rng" where
  "door_step (Troll r) (d, ps, g) = maybe_troll d r ps g"
| "door_step SetOpen (d, ps, g) = (set_open d, ps, g)"
| "door_step (DoorTick dt) (d, ps, g) = (Door_update d dt, ps, g)"

fun door_swaps :: "door_event list \<Rightarrow> Door \<times> Particle list \<times> rng \<Rightarrow> nat" where
  "door_swaps [] st = 0"
| "door_swaps (e # es) st =
     (case e of Troll r \<Rightarrow> (if troll_fires (fst st) r then 1 else 0) | _ \<Rightarrow> 0)
     + door_swaps es (door_step e st)"

fun door_step_web ::
  "door_event \<Rightarrow> Door_web \<times> ParticleSystem_web \<times> rng \<Rightarrow> Door_web \<times> ParticleSystem_web \<times> rng" where
  "door_step_web (Troll r) (d, ps, g) = maybe_troll_web d r ps g"
| "door_step_web SetOpen (d, ps, g) = (set_open_web d, ps, g)"
| "door_step_web (DoorTick dt) (d, ps, g) = (Door_update_web d dt, ps, g)"

fun door_swaps_web :: "door_event list \<Rightarrow> Door_web \<times> ParticleSystem_web \<times> rng \<Rightarrow> nat" where
  "door_swaps_web [] st = 0"
| "door_swaps_web (e # es) st =
     (case e of Troll r \<Rightarrow> (if \<not> troll_blocked_web (fst st)
                                 \<and> colliderect r (inflate (rect1 (fst st)) 60 60) then 1 else 0)
              | _ \<Rightarrow> 0)
     + door_swaps_web es (door_step_web e st)"

section \<open>Magic wall\<close>

lemma MagicWall_update_alive [simp]: "mw_alive (MagicWall_update w dt) = mw_alive w"
  by (simp add: MagicWall_update_def Let_def)

lemma MagicWall_update_health [simp]: "health (MagicWall_update w dt) = health w"
  by (simp add: MagicWall_update_def Let_def)

lemma hit_dead: "\<not> mw_alive w \<Longrightarrow> hit w = (False, w)"
  by (simp add: hit_def)

lemma wall_run_dead: "\<not> mw_alive w \<Longrightarrow> \<not> mw_alive (wall_run w es)"
  by (induction w es rule: wall_run.induct) (simp_all add: hit_dead)

lemma wall_run_health_1:
  "mw_alive w \<Longrightarrow> health w = 1
     \<Longrightarrow> mw_alive (wall_run w es) = (length (filter (\<lambda>e. e = Hit) es) < 1)"
proof (induction w es rule: wall_run.induct)
  case (2 w es)
  then have "\<not> mw_alive (snd (hit w))" by (simp add: hit_def Let_def)
  then show ?case using wall_run_dead by simp
qed simp_all

lemma wall_run_health_2:
  "mw_alive w \<Longrightarrow> health w = 2
     \<Longrightarrow> mw_alive (wall_run w es) = (length (filter (\<lambda>e. e = Hit) es) < 2)"
proof (induction w es rule: wall_run.induct)
  case (2 w es)
  then have "mw_alive (snd (hit w))" "health (snd (hit w)) = 1"
    by (simp_all add: hit_def Let_def)
  then show ?case using wall_run_health_1 [of "snd (hit w)" es] by auto
qed simp_all

subsection \<open>What a frame does to the state, the attempts and the wall\<close>

lemma after_control_state: "state (after_control gm dt ks) = state gm"
  by (simp add: after_control_def)

lemma after_control_attempts: "attempts (after_control gm dt ks) = attempts gm"
  by (simp add: after_control_def)

lemma after_control_wall: "magic_wall (level (after_control gm dt ks)) = magic_wall (level gm)"
  by (simp add: after_control_def)

lemma after_control_platforms: "platforms (level (after_control gm dt ks)) = platforms (level gm)"
  by (simp add: after_control_def)

lemma advance_state: "state (fst (advance gm dt ks g)) = state gm"
  by (simp add: advance_def Let_def after_control_state split: prod.splits)

lemma advance_attempts: "attempts (fst (advance gm dt ks g)) = attempts gm"
  by (simp add: advance_def Let_def after_control_attempts split: prod.splits)

lemma advance_best_time: "best_time (fst (advance gm dt ks g)) = best_time gm"
  by (simp add: advance_def Let_def after_control_def split: prod.splits)

lemma advance_wall_alive:
  "mw_alive (magic_wall (level (fst (advance gm dt ks g)))) = mw_alive (magic_wall (level gm))"
  by (simp add: advance_def Let_def after_control_wall split: prod.splits)

lemma kill_player_state: "state (fst (kill_player gm now g)) = DEAD"
  by (simp add: kill_player_def Let_def split: prod.splits)

lemma kill_player_attempts: "attempts (fst (kill_player gm now g)) = attempts gm + 1"
  by (simp add: kill_player_def Let_def split: prod.splits)

lemma kill_player_wall: "magic_wall (level (fst (kill_player gm now g))) = magic_wall (level gm)"
  by (simp add: kill_player_def Let_def split: prod.splits)

lemma win_game_wall: "magic_wall (level (fst (win_game gm now g))) = magic_wall (level gm)"
  by (simp add: win_game_def Let_def split: prod.splits)

lemma wall_collision_wall:
  "magic_wall (level (fst (wall_collision gm g))) =
     (if mw_alive (magic_wall (level gm))
         \<and> colliderect (pl_rect (player (level gm))) (inflate (mw_rect (magic_wall (level gm))) 5 5)
      then snd (hit (magic_wall (level gm))) else magic_wall (level gm))"
  by (simp add: wall_collision_def Let_def split: prod.splits)

lemma wall_collision_state: "state (fst (wall_collision gm g)) = state gm"
  by (simp add: wall_collision_def Let_def split: prod.splits)

lemma wall_collision_attempts: "attempts (fst (wall_collision gm g)) = attempts gm"
  by (simp add: wall_collision_def Let_def split: prod.splits)

lemma wall_collision_player: "player (level (fst (wall_collision gm g))) = player (level gm)"
  by (simp add: wall_collision_def Let_def split: prod.splits)

lemma wall_collision_spikes: "spikes (level (fst (wall_collision gm g))) = spikes (level gm)"
  by (simp add: wall_collision_def Let_def split: prod.splits)

lemma handle_collisions_wall_dead:
  assumes "\<not> mw_alive (magic_wall (level gm))"
  shows "\<not> mw_alive (magic_wall (level (fst (handle_collisions gm now g))))"
proof -
  from assms have w: "wall_collision gm g = (gm, g)"
    by (simp add: wall_collision_def Let_def)
  show ?thesis using assms
    by (simp add: handle_collisions_def w Let_def kill_player_wall win_game_wall split: prod.splits)
qed

lemma update_wall_dead:
  "\<not> mw_alive (magic_wall (level gm)) \<Longrightarrow> \<not> ks K_r
     \<Longrightarrow> \<not> mw_alive (magic_wall (level (fst (snd (update gm dt ks now g)))))"
  using handle_collisions_wall_dead advance_wall_alive
  by (simp add: update_def Let_def split: prod.splits) (metis fst_conv)

lemma before_physics_web_state: "state_web (fst (before_physics_web gm dt ks)) = state_web gm"
  by (simp add: before_physics_web_def Let_def)

lemma before_physics_web_attempts:
  "attempts_web (fst (before_physics_web gm dt ks)) = attempts_web gm"
  by (simp add: before_physics_web_def Let_def)

lemma before_physics_web_wall:
  "magic_wall_web (level_web (fst (before_physics_web gm dt ks))) = magic_wall_web (level_web gm)"
  by (simp add: before_physics_web_def Let_def)

lemma before_physics_web_platforms:
  "platforms_web (level_web (fst (before_physics_web gm dt ks))) = platforms_web (level_web gm)"
  by (simp add: before_physics_web_def Let_def)

lemma advance_web_state: "state_web (fst (advance_web gm dt ks g)) = state_web gm"
  by (simp add: advance_web_def Let_def split: prod.splits)
     (metis before_physics_web_state fst_conv)

lemma advance_web_attempts: "attempts_web (fst (advance_web gm dt ks g)) = attempts_web gm"
  by (simp add: advance_web_def Let_def split: prod.splits)
     (metis before_physics_web_attempts fst_conv)

lemma advance_web_wall_alive:
  "mw_alive (magic_wall_web (level_web (fst (advance_web gm dt ks g))))
     = mw_alive (magic_wall_web (level_web gm))"
  by (simp add: advance_web_def Let_def split: prod.splits)
     (metis before_physics_web_wall fst_conv)

lemma kill_player_web_state: "state_web (fst (kill_player_web gm now g)) = DEAD"
  by (simp add: kill_player_web_def Let_def split: prod.splits)

lemma kill_player_web_attempts:
  "attempts_web (fst (kill_player_web gm now g)) = attempts_web gm + 1"
  by (simp add: kill_player_web_def Let_def split: prod.splits)

lemma kill_player_web_wall:
  "magic_wall_web (level_web (fst (kill_player_web gm now g))) = magic_wall_web (level_web gm)"
  by (simp add: kill_player_web_def Let_def split: prod.splits)

lemma win_game_web_wall:
  "magic_wall_web (level_web (fst (win_game_web gm now g))) = magic_wall_web (level_web gm)"
  by (simp add: win_game_web_def Let_def split: prod.splits)

lemma handle_collisions_web_wall_dead:
  assumes "\<not> mw_alive (magic_wall_web (level_web gm))"
  shows "\<not> mw_alive (magic_wall_web (level_web (fst (handle_collisions_web gm now g))))"
proof -
  from assms have w: "wall_collision_web gm g = (gm, g)"
    by (simp add: wall_collision_web_def Let_def)
  show ?thesis using assms
    by (simp add: handle_collisions_web_def w Let_def kill_player_web_wall win_game_web_wall
             split: prod.splits)
qed

lemma update_web_wall_dead:
  "\<not> mw_alive (magic_wall_web (level_web gm)) \<Longrightarrow> \<not> ks K_r
     \<Longrightarrow> \<not> mw_alive (magic_wall_web (level_web (fst (snd (update_web gm dt ks now g)))))"
  using handle_collisions_web_wall_dead advance_web_wall_alive
  by (simp add: update_web_def Let_def split: prod.splits) (metis fst_conv)

text \<open>
  Claim C1. A magic wall that is alive with health 2 is destroyed by exactly two hits:
  after any sequence of hits and timer updates it is alive if and only if the sequence
  holds fewer than two hits. \<^verbatim>\<open>handle_collisions\<close> registers one hit in a frame in which
  the player overlaps the wall's inflated rectangle. Once the wall is destroyed it stays
  destroyed through every frame without a reset, and the collision list built in such a
  frame is the list of the static platforms alone (in \<^verbatim>\<open>main.py\<close>: the near static
  platforms and the near active fake platforms), without the wall's rectangle.
\<close>

theorem magic_wall_destroyed_by_two_hits:
  "(health w = 2 \<and> mw_alive w
      \<longrightarrow> mw_alive (wall_run w es) = (length (filter (\<lambda>e. e = Hit) es) < 2))
   \<and> magic_wall (level (fst (wall_collision gm g))) =
       (if mw_alive (magic_wall (level gm))
           \<and> colliderect (pl_rect (player (level gm))) (inflate (mw_rect (magic_wall (level gm))) 5 5)
        then snd (hit (magic_wall (level gm))) else magic_wall (level gm))
   \<and> (\<not> mw_alive (magic_wall (level gm))
        \<longrightarrow> platforms_for_collision (after_control gm dt ks) = platforms (level gm)
          \<and> (\<not> ks K_r \<longrightarrow> \<not> mw_alive (magic_wall (level (fst (snd (update gm dt ks now g)))))))
   \<and> (\<not> mw_alive (magic_wall_web (level_web gw))
        \<longrightarrow> platforms_for_collision_web (level_web (fst (before_physics_web gw dt ks)))
                (snd (before_physics_web gw dt ks))
            = (let lv = level_web (fst (before_physics_web gw dt ks));
                   player_x = snd (before_physics_web gw dt ks)
               in filter (\<lambda>p. near (pf_rect p) player_x 800) (platforms_web lv)
                  @ map (\<lambda>fake. Platform_init (rect_x (fp_rect fake)) (rect_y (fp_rect fake))
                                                (rect_w (fp_rect fake)) (rect_h (fp_rect fake)))
                        (filter (\<lambda>fake. fp_active fake \<and> \<not> fp_triggered fake
                                         \<and> near (fp_rect fake) player_x 800)
                                (fake_platforms lv)))
          \<and> (\<not> ks K_r
               \<longrightarrow> \<not> mw_alive (magic_wall_web (level_web (fst (snd (update_web gw dt ks now g)))))))"
proof (intro conjI impI)
  assume "health w = 2 \<and> mw_alive w"
  then show "mw_alive (wall_run w es) = (length (filter (\<lambda>e. e = Hit) es) < 2)"
    using wall_run_health_2 by blast
next
  show "magic_wall (level (fst (wall_collision gm g))) =
       (if mw_alive (magic_wall (level gm))
           \<and> colliderect (pl_rect (player (level gm))) (inflate (mw_rect (magic_wall (level gm))) 5 5)
        then snd (hit (magic_wall (level gm))) else magic_wall (level gm))"
    by (rule wall_collision_wall)
next
  assume "\<not> mw_alive (magic_wall (level gm))"
  then show "platforms_for_collision (after_control gm dt ks) = platforms (level gm)"
    by (simp add: platforms_for_collision_def after_control_wall after_control_platforms)
next
  assume "\<not> mw_alive (magic_wall (level gm))" "\<not> ks K_r"
  then show "\<not> mw_alive (magic_wall (level (fst (snd (update gm dt ks now g)))))"
    by (rule update_wall_dead)
next
  assume "\<not> mw_alive (magic_wall_web (level_web gw))"
  then show "platforms_for_collision_web (level_web (fst (before_physics_web gw dt ks)))
                (snd (before_physics_web gw dt ks))
            = (let lv = level_web (fst (before_physics_web gw dt ks));
                   player_x = snd (before_physics_web gw dt ks)
               in filter (\<lambda>p. near (pf_rect p) player_x 800) (platforms_web lv)
                  @ map (\<lambda>fake. Platform_init (rect_x (fp_rect fake)) (rect_y (fp_rect fake))
                                                (rect_w (fp_rect fake)) (rect_h (fp_rect fake)))
                        (filter (\<lambda>fake. fp_active fake \<and> \<not> fp_triggered fake
                                         \<and> near (fp_rect fake) player_x 800)
                                (fake_platforms lv)))"
    by (simp add: platforms_for_collision_web_def Let_def before_physics_web_wall)
next
  assume "\<not> mw_alive (magic_wall_web (level_web gw))" "\<not> ks K_r"
  then show "\<not> mw_alive (magic_wall_web (level_web (fst (snd (update_web gw dt ks now g)))))"
    by (rule update_web_wall_dead)
qed

theorem magic_wall_destroyed_by_two_hits_witness:
  "health (MagicWall_init 350 580 70 80) = 2 \<and> mw_alive (MagicWall_init 350 580 70 80)
   \<and> mw_alive (wall_run (MagicWall_init 350 580 70 80) [Hit, Tick 0.5])
   \<and> \<not> mw_alive (wall_run (MagicWall_init 350 580 70 80) [Hit, Tick 0.5, Hit])
   \<and> \<not> mw_alive (magic_wall (level ((Game_init 0)
          \<lparr>level := setup_level\<lparr>magic_wall := wall_run (MagicWall_init 350 580 70 80) [Hit, Hit]\<rparr>\<rparr>)))
   \<and> platforms_for_collision (after_control ((Game_init 0)
          \<lparr>level := setup_level\<lparr>magic_wall := wall_run (MagicWall_init 350 580 70 80) [Hit, Hit]\<rparr>\<rparr>)
          (1 / 60) (\<lambda>k. False))
       = platforms setup_level
   \<and> \<not> mw_alive (magic_wall (level (fst (snd (update ((Game_init 0)
          \<lparr>level := setup_level\<lparr>magic_wall := wall_run (MagicWall_init 350 580 70 80) [Hit, Hit]\<rparr>\<rparr>)
          (1 / 60) (\<lambda>k. False) 1 (\<lambda>i. 0))))))"
proof -
  let ?W = "MagicWall_init 350 580 70 80"
  let ?G = "(Game_init 0)\<lparr>level := setup_level\<lparr>magic_wall := wall_run ?W [Hit, Hit]\<rparr>\<rparr>"
  have h: "health ?W = 2 \<and> mw_alive ?W" by (simp add: MagicWall_init_def)
  have d: "\<not> mw_alive (magic_wall (level ?G))"
    using magic_wall_destroyed_by_two_hits [of ?W "[Hit, Hit]"] h by simp
  have a: "mw_alive (wall_run ?W [Hit, Tick 0.5])"
    using magic_wall_destroyed_by_two_hits [of ?W "[Hit, Tick 0.5]"] h by simp
  have b: "\<not> mw_alive (wall_run ?W [Hit, Tick 0.5, Hit])"
    using magic_wall_destroyed_by_two_hits [of ?W "[Hit, Tick 0.5, Hit]"] h by simp
  have c: "platforms_for_collision (after_control ?G (1 / 60) (\<lambda>k. False)) = platforms (level ?G)
      \<and> \<not> mw_alive (magic_wall (level (fst (snd (update ?G (1 / 60) (\<lambda>k. False) 1 (\<lambda>i. 0))))))"
    using magic_wall_destroyed_by_two_hits [of _ _ ?G _ "1 / 60" "\<lambda>k. False" 1] d by blast
  show ?thesis using h a b c d by simp
qed


section \<open>Falling stone\<close>

lemma trigger_check_fields:
  "dropped (trigger_check s x) = dropped s
   \<and> warning_timer (trigger_check s x) = warning_timer s
   \<and> trigger_range (trigger_check s x) = trigger_range s
   \<and> warning (trigger_check s x)
       = (warning s \<or> (\<not> dropped s \<and> fst (trigger_range s) \<le> x \<and> x \<le> snd (trigger_range s)))"
  by (simp add: trigger_check_def)

lemma warning_step_fields:
  "warning (fst (warning_step s dt g)) = warning s
   \<and> trigger_range (fst (warning_step s dt g)) = trigger_range s
   \<and> settled (fst (warning_step s dt g)) = settled s
   \<and> dropped (fst (warning_step s dt g))
       = (dropped s \<or> (warning s \<and> warning_timer s - dt \<le> 0))
   \<and> warning_timer (fst (warning_step s dt g))
       = (if warning s \<and> \<not> dropped s then warning_timer s - dt else warning_timer s)"
  by (auto simp: warning_step_def Let_def split: prod.splits)

lemma stone_collisions_fields:
  "dropped (fst (stone_collisions pfs s ps g)) = dropped s
   \<and> warning (fst (stone_collisions pfs s ps g)) = warning s
   \<and> warning_timer (fst (stone_collisions pfs s ps g)) = warning_timer s
   \<and> trigger_range (fst (stone_collisions pfs s ps g)) = trigger_range s"
  by (induction pfs s ps g rule: stone_collisions.induct)
     (simp_all add: Let_def split: prod.splits)

lemma stone_collide_web_fields:
  "dropped (fst (stone_collide_web pf (s, ps, g))) = dropped s
   \<and> warning (fst (stone_collide_web pf (s, ps, g))) = warning s
   \<and> warning_timer (fst (stone_collide_web pf (s, ps, g))) = warning_timer s
   \<and> trigger_range (fst (stone_collide_web pf (s, ps, g))) = trigger_range s"
  by (simp add: stone_collide_web_def Let_def split: prod.splits)

lemma fold_stone_collide_web_fields:
  "dropped (fst (fold stone_collide_web pfs (s, ps, g))) = dropped s
   \<and> warning (fst (fold stone_collide_web pfs (s, ps, g))) = warning s
   \<and> warning_timer (fst (fold stone_collide_web pfs (s, ps, g))) = warning_timer s
   \<and> trigger_range (fst (fold stone_collide_web pfs (s, ps, g))) = trigger_range s"
proof (induction pfs arbitrary: s ps g)
  case Nil
  show ?case by simp
next
  case (Cons pf pfs)
  obtain s1 ps1 g1 where e: "stone_collide_web pf (s, ps, g) = (s1, ps1, g1)"
    by (cases "stone_collide_web pf (s, ps, g)") auto
  show ?case
    using Cons.IH [of s1 ps1 g1] stone_collide_web_fields [of pf s ps g] e by simp
qed

lemma FallingStone_update_fields:
  "dropped (fst (FallingStone_update s dt pfs ps g)) = dropped (fst (warning_step s dt g))
   \<and> warning (fst (FallingStone_update s dt pfs ps g)) = warning s
   \<and> warning_timer (fst (FallingStone_update s dt pfs ps g)) = warning_timer (fst (warning_step s dt g))
   \<and> trigger_range (fst (FallingStone_update s dt pfs ps g)) = trigger_range s"
proof -
  obtain s1 g1 where e: "warning_step s dt g = (s1, g1)" by (cases "warning_step s dt g")
  have w: "warning s1 = warning s" "trigger_range s1 = trigger_range s"
    using warning_step_fields [of s dt g] e by simp_all
  show ?thesis
  proof (cases "dropped s1 \<and> \<not> settled s1")
    case True
    then show ?thesis
      using w by (simp add: FallingStone_update_def e Let_def stone_collisions_fields)
  next
    case False
    then show ?thesis
      using w by (auto simp: FallingStone_update_def e Let_def)
  qed
qed

lemma FallingStone_update_web_fields:
  "dropped (fst (FallingStone_update_web s dt pfs ps g)) = dropped (fst (warning_step s dt g))
   \<and> warning (fst (FallingStone_update_web s dt pfs ps g)) = warning s
   \<and> warning_timer (fst (FallingStone_update_web s dt pfs ps g))
       = warning_timer (fst (warning_step s dt g))
   \<and> trigger_range (fst (FallingStone_update_web s dt pfs ps g)) = trigger_range s"
proof -
  obtain s1 g1 where e: "warning_step s dt g = (s1, g1)" by (cases "warning_step s dt g")
  have w: "warning s1 = warning s" "trigger_range s1 = trigger_range s"
    using warning_step_fields [of s dt g] e by simp_all
  show ?thesis
  proof (cases "dropped s1 \<and> \<not> settled s1")
    case True
    then show ?thesis
      using w by (simp add: FallingStone_update_web_def e Let_def fold_stone_collide_web_fields)
  next
    case False
    then show ?thesis
      using w by (auto simp: FallingStone_update_web_def e Let_def)
  qed
qed

text \<open>One frame of a stone, for either file: \<open>t\<close> is the stone after the frame.\<close>

lemma stone_frame:
  assumes "dropped t = dropped (fst (warning_step (trigger_check s x) dt g))"
    and "warning t = warning (trigger_check s x)"
    and "warning_timer t = warning_timer (fst (warning_step (trigger_check s x) dt g))"
    and "trigger_range t = trigger_range (trigger_check s x)"
  shows "trigger_range t = trigger_range s"
    and "dropped s \<longrightarrow> warning s \<and> warning_timer s \<le> 0
           \<Longrightarrow> dropped t = (warning t \<and> warning_timer t \<le> 0)"
    and "\<not> warning s \<Longrightarrow> \<not> dropped s
           \<Longrightarrow> \<not> (fst (trigger_range s) \<le> x \<and> x \<le> snd (trigger_range s))
           \<Longrightarrow> \<not> warning t \<and> \<not> dropped t \<and> warning_timer t = warning_timer s"
  using assms trigger_check_fields [of s x] warning_step_fields [of "trigger_check s x" dt g]
  by auto

lemma stone_run_invariant:
  "dropped s = (warning s \<and> warning_timer s \<le> 0)
     \<Longrightarrow> dropped (fst (stone_run s frames pfs ps g))
           = (warning (fst (stone_run s frames pfs ps g))
              \<and> warning_timer (fst (stone_run s frames pfs ps g)) \<le> 0)"
proof (induction frames arbitrary: s ps g)
  case Nil
  then show ?case by auto
next
  case (Cons fr frames)
  obtain x dt where fr: "fr = (x, dt)" by (cases fr)
  obtain t ps1 g1 where u: "FallingStone_update (trigger_check s x) dt pfs ps g = (t, ps1, g1)"
    by (cases "FallingStone_update (trigger_check s x) dt pfs ps g") auto
  have "dropped t = (warning t \<and> warning_timer t \<le> 0)"
    using stone_frame(2) [of t s x dt g] FallingStone_update_fields [of "trigger_check s x" dt pfs ps g]
          u Cons.prems by simp
  then show ?case using Cons.IH [of t ps1 g1] fr u by simp
qed

lemma stone_run_needs_trigger:
  "\<not> warning s \<Longrightarrow> \<not> dropped s \<Longrightarrow> warning (fst (stone_run s frames pfs ps g))
     \<Longrightarrow> \<exists>fr \<in> set frames. fst (trigger_range s) \<le> fst fr \<and> fst fr \<le> snd (trigger_range s)"
proof (induction frames arbitrary: s ps g)
  case Nil
  then show ?case by simp
next
  case (Cons fr frames)
  obtain x dt where fr: "fr = (x, dt)" by (cases fr)
  obtain t ps1 g1 where u: "FallingStone_update (trigger_check s x) dt pfs ps g = (t, ps1, g1)"
    by (cases "FallingStone_update (trigger_check s x) dt pfs ps g") auto
  show ?case
  proof (cases "fst (trigger_range s) \<le> x \<and> x \<le> snd (trigger_range s)")
    case True
    then show ?thesis using fr by simp
  next
    case False
    have f: "dropped t = dropped (fst (warning_step (trigger_check s x) dt g))"
        "warning t = warning (trigger_check s x)"
        "warning_timer t = warning_timer (fst (warning_step (trigger_check s x) dt g))"
        "trigger_range t = trigger_range (trigger_check s x)"
      using FallingStone_update_fields [of "trigger_check s x" dt pfs ps g] u by simp_all
    have t: "\<not> warning t \<and> \<not> dropped t \<and> warning_timer t = warning_timer s"
      using stone_frame(3) [OF f Cons.prems(1,2) False] .
    have r: "trigger_range t = trigger_range s" using stone_frame(1) [OF f] .
    have "warning (fst (stone_run t frames pfs ps1 g1))" using Cons.prems(3) fr u by simp
    then have "\<exists>fr \<in> set frames. fst (trigger_range t) \<le> fst fr \<and> fst fr \<le> snd (trigger_range t)"
      using Cons.IH [of t ps1 g1] t by blast
    then show ?thesis using r by auto
  qed
qed

lemma stone_run_web_invariant:
  "dropped s = (warning s \<and> warning_timer s \<le> 0)
     \<Longrightarrow> dropped (fst (stone_run_web s frames pfs ps g))
           = (warning (fst (stone_run_web s frames pfs ps g))
              \<and> warning_timer (fst (stone_run_web s frames pfs ps g)) \<le> 0)"
proof (induction frames arbitrary: s ps g)
  case Nil
  then show ?case by auto
next
  case (Cons fr frames)
  obtain x dt where fr: "fr = (x, dt)" by (cases fr)
  show ?case
  proof (cases "near (fs_rect s) x 1000")
    case True
    obtain t ps1 g1 where u: "FallingStone_update_web (trigger_check s x) dt pfs ps g = (t, ps1, g1)"
      by (cases "FallingStone_update_web (trigger_check s x) dt pfs ps g") auto
    have "dropped t = (warning t \<and> warning_timer t \<le> 0)"
      using stone_frame(2) [of t s x dt g]
            FallingStone_update_web_fields [of "trigger_check s x" dt pfs ps g] u Cons.prems
      by simp
    then show ?thesis using Cons.IH [of t ps1 g1] fr u True by simp
  next
    case False
    then show ?thesis using Cons.IH [of s ps g] Cons.prems fr by simp
  qed
qed

lemma stone_run_web_needs_trigger:
  "\<not> warning s \<Longrightarrow> \<not> dropped s \<Longrightarrow> warning (fst (stone_run_web s frames pfs ps g))
     \<Longrightarrow> \<exists>fr \<in> set frames. fst (trigger_range s) \<le> fst fr \<and> fst fr \<le> snd (trigger_range s)"
proof (induction frames arbitrary: s ps g)
  case Nil
  then show ?case by simp
next
  case (Cons fr frames)
  obtain x dt where fr: "fr = (x, dt)" by (cases fr)
  show ?case
  proof (cases "near (fs_rect s) x 1000 \<and> \<not> (fst (trigger_range s) \<le> x \<and> x \<le> snd (trigger_range s))")
    case True
    obtain t ps1 g1 where u: "FallingStone_update_web (trigger_check s x) dt pfs ps g = (t, ps1, g1)"
      by (cases "FallingStone_update_web (trigger_check s x) dt pfs ps g") auto
    have f: "dropped t = dropped (fst (warning_step (trigger_check s x) dt g))"
        "warning t = warning (trigger_check s x)"
        "warning_timer t = warning_timer (fst (warning_step (trigger_check s x) dt g))"
        "trigger_range t = trigger_range (trigger_check s x)"
      using FallingStone_update_web_fields [of "trigger_check s x" dt pfs ps g] u by simp_all
    from True have nr: "\<not> (fst (trigger_range s) \<le> x \<and> x \<le> snd (trigger_range s))" by blast
    have t: "\<not> warning t \<and> \<not> dropped t \<and> warning_timer t = warning_timer s"
      using stone_frame(3) [OF f Cons.prems(1,2) nr] .
    have r: "trigger_range t = trigger_range s" using stone_frame(1) [OF f] .
    have "warning (fst (stone_run_web t frames pfs ps1 g1))" using Cons.prems(3) fr u True by simp
    then have "\<exists>fr \<in> set frames. fst (trigger_range t) \<le> fst fr \<and> fst fr \<le> snd (trigger_range t)"
      using Cons.IH [of t ps1 g1] t by blast
    then show ?thesis using r by auto
  next
    case False
    show ?thesis
    proof (cases "near (fs_rect s) x 1000")
      case True
      with False show ?thesis using fr by simp
    next
      case n: False
      then have "warning (fst (stone_run_web s frames pfs ps g))" using Cons.prems(3) fr by simp
      then show ?thesis using Cons.IH [of s ps g] Cons.prems(1,2) by auto
    qed
  qed
qed

text \<open>
  Claim C3. In one call of \<^verbatim>\<open>update\<close> on a stone that has not dropped, \<open>dropped\<close>
  becomes true exactly when the stone is in its warning and its timer, decreased by the
  elapsed time of this call, is at most 0. A stone is created with the timer at the
  configured warning duration, not warned and not dropped; after any number of frames it
  has dropped if and only if it has been warned and its timer is at most 0, and it has
  been warned (so, a fortiori, has dropped) only if in one of these frames the player's
  x-position was inside its trigger range. Both files.
\<close>

theorem stone_drops_when_warning_elapsed:
  "(\<not> dropped s \<longrightarrow>
      dropped (fst (FallingStone_update s dt pfs ps g)) = (warning s \<and> warning_timer s - dt \<le> 0)
      \<and> dropped (fst (FallingStone_update_web s dt pfs pw g)) = (warning s \<and> warning_timer s - dt \<le> 0)
      \<and> warning_timer (fst (FallingStone_update s dt pfs ps g))
           = (if warning s then warning_timer s - dt else warning_timer s))
   \<and> warning_timer (FallingStone_init a top_y tr wt) = wt
   \<and> (let t = fst (stone_run (FallingStone_init a top_y tr wt) frames pfs ps g)
       in dropped t = (warning t \<and> warning_timer t \<le> 0)
          \<and> (warning t \<longrightarrow> (\<exists>fr \<in> set frames. fst tr \<le> fst fr \<and> fst fr \<le> snd tr))
          \<and> (dropped t \<longrightarrow> (\<exists>fr \<in> set frames. fst tr \<le> fst fr \<and> fst fr \<le> snd tr)))
   \<and> (let t = fst (stone_run_web (FallingStone_init a top_y tr wt) frames pfs pw g)
       in dropped t = (warning t \<and> warning_timer t \<le> 0)
          \<and> (warning t \<longrightarrow> (\<exists>fr \<in> set frames. fst tr \<le> fst fr \<and> fst fr \<le> snd tr))
          \<and> (dropped t \<longrightarrow> (\<exists>fr \<in> set frames. fst tr \<le> fst fr \<and> fst fr \<le> snd tr)))"
proof -
  let ?s0 = "FallingStone_init a top_y tr wt"
  have i: "\<not> warning ?s0" "\<not> dropped ?s0" "trigger_range ?s0 = tr" "warning_timer ?s0 = wt"
    by (simp_all add: FallingStone_init_def)
  have step: "\<not> dropped s \<longrightarrow>
      dropped (fst (FallingStone_update s dt pfs ps g)) = (warning s \<and> warning_timer s - dt \<le> 0)
      \<and> dropped (fst (FallingStone_update_web s dt pfs pw g)) = (warning s \<and> warning_timer s - dt \<le> 0)
      \<and> warning_timer (fst (FallingStone_update s dt pfs ps g))
           = (if warning s then warning_timer s - dt else warning_timer s)"
    using FallingStone_update_fields [of s dt pfs ps g]
          FallingStone_update_web_fields [of s dt pfs pw g] warning_step_fields [of s dt g]
    by simp
  let ?t = "fst (stone_run ?s0 frames pfs ps g)"
  have d1: "dropped ?t = (warning ?t \<and> warning_timer ?t \<le> 0)"
    using stone_run_invariant [of ?s0 frames pfs ps g] i by simp
  have d2: "warning ?t \<longrightarrow> (\<exists>fr \<in> set frames. fst tr \<le> fst fr \<and> fst fr \<le> snd tr)"
    using stone_run_needs_trigger [of ?s0 frames pfs ps g] i by auto
  let ?u = "fst (stone_run_web ?s0 frames pfs pw g)"
  have w1: "dropped ?u = (warning ?u \<and> warning_timer ?u \<le> 0)"
    using stone_run_web_invariant [of ?s0 frames pfs pw g] i by simp
  have w2: "warning ?u \<longrightarrow> (\<exists>fr \<in> set frames. fst tr \<le> fst fr \<and> fst fr \<le> snd tr)"
    using stone_run_web_needs_trigger [of ?s0 frames pfs pw g] i by auto
  show ?thesis
    unfolding Let_def using step i(4) d1 d2 w1 w2 by blast
qed

theorem stone_drops_when_warning_elapsed_witness:
  "\<not> dropped ((FallingStone_init 480 50 (420, 540) 1.5)\<lparr>warning := True, warning_timer := 0.01\<rparr>)
   \<and> dropped (fst (FallingStone_update
        ((FallingStone_init 480 50 (420, 540) 1.5)\<lparr>warning := True, warning_timer := 0.01\<rparr>)
        0.02 [] [] (\<lambda>i. 0)))
   \<and> \<not> dropped (fst (FallingStone_update
        ((FallingStone_init 480 50 (420, 540) 1.5)\<lparr>warning := True, warning_timer := 0.01\<rparr>)
        0.005 [] [] (\<lambda>i. 0)))
   \<and> \<not> dropped (fst (stone_run (FallingStone_init 480 50 (420, 540) 1.5)
                        [(100, 1), (200, 1), (300, 1)] [] [] (\<lambda>i. 0)))"
proof -
  let ?s = "(FallingStone_init 480 50 (420, 540) 1.5)\<lparr>warning := True, warning_timer := 0.01\<rparr>"
  have n: "\<not> dropped ?s" "warning ?s" "warning_timer ?s = 0.01"
    by (simp_all add: FallingStone_init_def)
  have a: "dropped (fst (FallingStone_update ?s 0.02 [] [] (\<lambda>i. 0)))"
    using stone_drops_when_warning_elapsed [of ?s "0.02" "[]" "[]" "\<lambda>i. 0"] n by simp
  have b: "\<not> dropped (fst (FallingStone_update ?s 0.005 [] [] (\<lambda>i. 0)))"
    using stone_drops_when_warning_elapsed [of ?s "0.005" "[]" "[]" "\<lambda>i. 0"] n by simp
  have c: "\<not> dropped (fst (stone_run (FallingStone_init 480 50 (420, 540) 1.5)
                        [(100, 1), (200, 1), (300, 1)] [] [] (\<lambda>i. 0)))"
    using stone_drops_when_warning_elapsed
            [where a = 480 and top_y = 50 and tr = "(420, 540)" and wt = "1.5"
               and frames = "[(100, 1), (200, 1), (300, 1)]" and pfs = "[]" and ps = "[]"
               and g = "\<lambda>i. 0"]
    by (auto simp: Let_def)
  show ?thesis using n(1) a b c by blast
qed


section \<open>Door\<close>

lemma maybe_troll_fires:
  "troll_fires d r \<Longrightarrow>
     trolled_once (fst (maybe_troll d r ps g))
     \<and> d_rect (fst (maybe_troll d r ps g)) = set_topleft (d_rect d) (alt_pos d)
     \<and> alt_pos (fst (maybe_troll d r ps g)) = alt_pos d"
  by (simp add: maybe_troll_def Let_def split: prod.splits)

lemma maybe_troll_idle: "\<not> troll_fires d r \<Longrightarrow> maybe_troll d r ps g = (d, ps, g)"
  by (simp add: maybe_troll_def)

lemma trolled_never_fires: "trolled_once d \<Longrightarrow> \<not> troll_fires d r"
  by (simp add: troll_fires_def)

lemma door_step_trolled:
  "trolled_once d \<Longrightarrow>
     trolled_once (fst (door_step e (d, ps, g))) \<and> d_rect (fst (door_step e (d, ps, g))) = d_rect d"
  by (cases e)
     (simp_all add: maybe_troll_idle trolled_never_fires set_open_def Door_update_def Let_def)

lemma door_run_trolled:
  "trolled_once (fst st) \<Longrightarrow>
     trolled_once (fst (fold door_step es st)) \<and> d_rect (fst (fold door_step es st)) = d_rect (fst st)
     \<and> door_swaps es st = 0"
proof (induction es arbitrary: st)
  case Nil
  then show ?case by simp
next
  case (Cons e es)
  obtain d ps g where st: "st = (d, ps, g)" by (cases st)
  have s: "trolled_once (fst (door_step e st)) \<and> d_rect (fst (door_step e st)) = d_rect (fst st)"
    using door_step_trolled [of d e ps g] Cons.prems st by simp
  have "\<And>r. \<not> troll_fires (fst st) r" using Cons.prems trolled_never_fires by blast
  then have "door_swaps (e # es) st = door_swaps es (door_step e st)"
    by (cases e) simp_all
  then show ?case using Cons.IH [of "door_step e st"] s by simp
qed

lemma door_step_not_fired:
  "\<not> trolled_once d \<Longrightarrow> (\<And>r. e = Troll r \<Longrightarrow> \<not> troll_fires d r)
     \<Longrightarrow> \<not> trolled_once (fst (door_step e (d, ps, g)))"
  by (cases e) (simp_all add: maybe_troll_idle set_open_def Door_update_def Let_def)

lemma door_swaps_trolled:
  "\<not> trolled_once (fst st) \<Longrightarrow>
     door_swaps es st \<le> 1 \<and> trolled_once (fst (fold door_step es st)) = (door_swaps es st = 1)"
proof (induction es arbitrary: st)
  case Nil
  then show ?case by simp
next
  case (Cons e es)
  obtain d ps g where st: "st = (d, ps, g)" by (cases st)
  show ?case
  proof (cases "\<exists>r. e = Troll r \<and> troll_fires d r")
    case True
    then obtain r where r: "e = Troll r" "troll_fires d r" by blast
    have "trolled_once (fst (door_step e st))"
      using maybe_troll_fires [OF r(2), of ps g] r(1) st by simp
    then show ?thesis
      using door_run_trolled [of "door_step e st" es] r st by simp
  next
    case False
    then have n: "\<not> trolled_once (fst (door_step e st))"
      using door_step_not_fired [of d e ps g] Cons.prems st by auto
    from False have "door_swaps (e # es) st = door_swaps es (door_step e st)"
      using st by (cases e) auto
    then show ?thesis using Cons.IH [OF n] by simp
  qed
qed

lemma maybe_troll_web_fires:
  "\<not> troll_blocked_web d \<Longrightarrow> colliderect r (inflate (rect1 d) 60 60) \<Longrightarrow>
     trolled_once_web (fst (maybe_troll_web d r ps g))
     \<and> active_rect (fst (maybe_troll_web d r ps g)) = rect2 d"
  by (simp add: maybe_troll_web_def Let_def split: prod.splits)

lemma maybe_troll_web_idle:
  "troll_blocked_web d \<or> \<not> colliderect r (inflate (rect1 d) 60 60)
     \<Longrightarrow> maybe_troll_web d r ps g = (d, ps, g)"
  by (auto simp: maybe_troll_web_def)

lemma door_step_web_trolled:
  "trolled_once_web d \<Longrightarrow>
     trolled_once_web (fst (door_step_web e (d, ps, g)))
     \<and> active_rect (fst (door_step_web e (d, ps, g))) = active_rect d"
  by (cases e)
     (simp_all add: maybe_troll_web_idle troll_blocked_web_def set_open_web_def
        Door_update_web_def Let_def)

lemma door_run_web_trolled:
  "trolled_once_web (fst st) \<Longrightarrow>
     trolled_once_web (fst (fold door_step_web es st))
     \<and> active_rect (fst (fold door_step_web es st)) = active_rect (fst st)
     \<and> door_swaps_web es st = 0"
proof (induction es arbitrary: st)
  case Nil
  then show ?case by simp
next
  case (Cons e es)
  obtain d ps g where st: "st = (d, ps, g)" by (cases st)
  have s: "trolled_once_web (fst (door_step_web e st))
           \<and> active_rect (fst (door_step_web e st)) = active_rect (fst st)"
    using door_step_web_trolled [of d e ps g] Cons.prems st by simp
  have "troll_blocked_web (fst st)" using Cons.prems by (simp add: troll_blocked_web_def)
  then have "door_swaps_web (e # es) st = door_swaps_web es (door_step_web e st)"
    by (cases e) simp_all
  then show ?case using Cons.IH [of "door_step_web e st"] s by simp
qed

lemma door_step_web_not_fired:
  "\<not> trolled_once_web d
     \<Longrightarrow> (\<And>r. e = Troll r \<Longrightarrow> troll_blocked_web d \<or> \<not> colliderect r (inflate (rect1 d) 60 60))
     \<Longrightarrow> \<not> trolled_once_web (fst (door_step_web e (d, ps, g)))"
  by (cases e) (simp_all add: maybe_troll_web_idle set_open_web_def Door_update_web_def Let_def)

lemma door_swaps_web_trolled:
  "\<not> trolled_once_web (fst st) \<Longrightarrow>
     door_swaps_web es st \<le> 1
     \<and> trolled_once_web (fst (fold door_step_web es st)) = (door_swaps_web es st = 1)"
proof (induction es arbitrary: st)
  case Nil
  then show ?case by simp
next
  case (Cons e es)
  obtain d ps g where st: "st = (d, ps, g)" by (cases st)
  show ?case
  proof (cases "\<exists>r. e = Troll r \<and> \<not> troll_blocked_web d \<and> colliderect r (inflate (rect1 d) 60 60)")
    case True
    then obtain r where r: "e = Troll r" "\<not> troll_blocked_web d"
        "colliderect r (inflate (rect1 d) 60 60)" by blast
    have "trolled_once_web (fst (door_step_web e st))"
      using maybe_troll_web_fires [OF r(2,3), of ps g] r(1) st by simp
    then show ?thesis
      using door_run_web_trolled [of "door_step_web e st" es] r st by simp
  next
    case False
    then have n: "\<not> trolled_once_web (fst (door_step_web e st))"
      using door_step_web_not_fired [of d e ps g] Cons.prems st by auto
    from False have "door_swaps_web (e # es) st = door_swaps_web es (door_step_web e st)"
      using st by (cases e) auto
    then show ?thesis using Cons.IH [OF n] by simp
  qed
qed

text \<open>
  Claim C4. A door is created with \<open>trolled_once\<close> false, and so it is after a reset. The
  first call of \<^verbatim>\<open>maybe_troll\<close> whose condition holds (in \<^verbatim>\<open>gmae.py\<close>: the player
  overlaps the door's rectangle inflated by (60, 20) with his centre not below the door's;
  in \<^verbatim>\<open>main.py\<close>: the door is not open and the player overlaps the primary rectangle
  inflated by (60, 60)) sets \<open>trolled_once\<close> and moves the door to the alternate
  position; a call whose condition fails changes nothing. From then on, through every
  call of \<^verbatim>\<open>maybe_troll\<close>, \<^verbatim>\<open>set_open\<close> and \<^verbatim>\<open>update\<close>, \<open>trolled_once\<close>
  stays true and the door stays where it is: in any session the door moves at most
  once, and \<open>trolled_once\<close> is true at the end exactly if it moved.
\<close>

theorem door_trolls_at_most_once:
  "\<not> trolled_once (Door_init pos1 pos2)
   \<and> \<not> trolled_once (door (level (reset_game gm now)))
   \<and> (troll_fires d r \<longrightarrow>
        trolled_once (fst (maybe_troll d r ps g))
        \<and> d_rect (fst (maybe_troll d r ps g)) = set_topleft (d_rect d) (alt_pos d))
   \<and> (\<not> troll_fires d r \<longrightarrow> maybe_troll d r ps g = (d, ps, g))
   \<and> (trolled_once d \<longrightarrow>
        trolled_once (fst (fold door_step es (d, ps, g)))
        \<and> d_rect (fst (fold door_step es (d, ps, g))) = d_rect d
        \<and> door_swaps es (d, ps, g) = 0)
   \<and> (\<not> trolled_once d \<longrightarrow>
        door_swaps es (d, ps, g) \<le> 1
        \<and> trolled_once (fst (fold door_step es (d, ps, g))) = (door_swaps es (d, ps, g) = 1))
   \<and> \<not> trolled_once_web (Door_init_web pos1 pos2)
   \<and> \<not> trolled_once_web (door_web (level_web (reset_game_web gw now)))
   \<and> (\<not> troll_blocked_web dw \<and> colliderect r (inflate (rect1 dw) 60 60) \<longrightarrow>
        trolled_once_web (fst (maybe_troll_web dw r pw g))
        \<and> active_rect (fst (maybe_troll_web dw r pw g)) = rect2 dw)
   \<and> (troll_blocked_web dw \<or> \<not> colliderect r (inflate (rect1 dw) 60 60) \<longrightarrow>
        maybe_troll_web dw r pw g = (dw, pw, g))
   \<and> (trolled_once_web dw \<longrightarrow>
        trolled_once_web (fst (fold door_step_web es (dw, pw, g)))
        \<and> active_rect (fst (fold door_step_web es (dw, pw, g))) = active_rect dw
        \<and> door_swaps_web es (dw, pw, g) = 0)
   \<and> (\<not> trolled_once_web dw \<longrightarrow>
        door_swaps_web es (dw, pw, g) \<le> 1
        \<and> trolled_once_web (fst (fold door_step_web es (dw, pw, g)))
            = (door_swaps_web es (dw, pw, g) = 1))"
proof (intro conjI impI)
  show "\<not> trolled_once (Door_init pos1 pos2)" by (simp add: Door_init_def)
  show "\<not> trolled_once (door (level (reset_game gm now)))"
    by (simp add: reset_game_def setup_level_def Door_init_def)
  show "\<not> trolled_once_web (Door_init_web pos1 pos2)" by (simp add: Door_init_web_def)
  show "\<not> trolled_once_web (door_web (level_web (reset_game_web gw now)))"
    by (simp add: reset_game_web_def setup_level_web_def Door_init_web_def)
next
  assume "troll_fires d r"
  then show "trolled_once (fst (maybe_troll d r ps g))"
    and "d_rect (fst (maybe_troll d r ps g)) = set_topleft (d_rect d) (alt_pos d)"
    using maybe_troll_fires by blast+
next
  assume "\<not> troll_fires d r"
  then show "maybe_troll d r ps g = (d, ps, g)" by (rule maybe_troll_idle)
next
  assume "trolled_once d"
  then show "trolled_once (fst (fold door_step es (d, ps, g)))"
    and "d_rect (fst (fold door_step es (d, ps, g))) = d_rect d"
    and "door_swaps es (d, ps, g) = 0"
    using door_run_trolled [of "(d, ps, g)" es] by simp_all
next
  assume "\<not> trolled_once d"
  then show "door_swaps es (d, ps, g) \<le> 1"
    and "trolled_once (fst (fold door_step es (d, ps, g))) = (door_swaps es (d, ps, g) = 1)"
    using door_swaps_trolled [of "(d, ps, g)" es] by simp_all
next
  assume "\<not> troll_blocked_web dw \<and> colliderect r (inflate (rect1 dw) 60 60)"
  then show "trolled_once_web (fst (maybe_troll_web dw r pw g))"
    and "active_rect (fst (maybe_troll_web dw r pw g)) = rect2 dw"
    using maybe_troll_web_fires by blast+
next
  assume "troll_blocked_web dw \<or> \<not> colliderect r (inflate (rect1 dw) 60 60)"
  then show "maybe_troll_web dw r pw g = (dw, pw, g)" by (rule maybe_troll_web_idle)
next
  assume "trolled_once_web dw"
  then show "trolled_once_web (fst (fold door_step_web es (dw, pw, g)))"
    and "active_rect (fst (fold door_step_web es (dw, pw, g))) = active_rect dw"
    and "door_swaps_web es (dw, pw, g) = 0"
    using door_run_web_trolled [of "(dw, pw, g)" es] by simp_all
next
  assume "\<not> trolled_once_web dw"
  then show "door_swaps_web es (dw, pw, g) \<le> 1"
    and "trolled_once_web (fst (fold door_step_web es (dw, pw, g)))
            = (door_swaps_web es (dw, pw, g) = 1)"
    using door_swaps_web_trolled [of "(dw, pw, g)" es] by simp_all
qed

theorem door_trolls_at_most_once_witness:
  "troll_fires (Door_init (1140, 380) (160, 500)) (mk_rect 1120 370 32 44)
   \<and> trolled_once (fst (maybe_troll (Door_init (1140, 380) (160, 500)) (mk_rect 1120 370 32 44)
                          [] (\<lambda>i. 0)))
   \<and> d_rect (fst (maybe_troll (Door_init (1140, 380) (160, 500)) (mk_rect 1120 370 32 44)
                          [] (\<lambda>i. 0))) = mk_rect 160 500 40 60
   \<and> \<not> trolled_once (Door_init (1140, 380) (160, 500))
   \<and> door_swaps [Troll (mk_rect 1120 370 32 44), DoorTick 0.1, Troll (mk_rect 150 490 32 44)]
        (Door_init (1140, 380) (160, 500), [], \<lambda>i. 0) \<le> 1
   \<and> \<not> troll_blocked_web (Door_init_web (1140, 380) (160, 500))
   \<and> colliderect (mk_rect 1120 370 30 50) (inflate (rect1 (Door_init_web (1140, 380) (160, 500))) 60 60)
   \<and> active_rect (fst (maybe_troll_web (Door_init_web (1140, 380) (160, 500))
                          (mk_rect 1120 370 30 50) ParticleSystem_init_web (\<lambda>i. 0)))
       = mk_rect 160 500 40 60"
proof -
  let ?d = "Door_init (1140, 380) (160, 500)"
  let ?r = "mk_rect 1120 370 32 44"
  let ?dw = "Door_init_web (1140, 380) (160, 500)"
  let ?rw = "mk_rect 1120 370 30 50"
  have f: "troll_fires ?d ?r"
    by (simp add: troll_fires_def Door_init_def mk_rect_def colliderect_def inflate_def
          rect_centery_def c_div_def)
  have n: "\<not> trolled_once ?d" by (simp add: Door_init_def)
  have bw: "\<not> troll_blocked_web ?dw" by (simp add: troll_blocked_web_def Door_init_web_def)
  have cw: "colliderect ?rw (inflate (rect1 ?dw) 60 60)"
    by (simp add: Door_init_web_def mk_rect_def colliderect_def inflate_def c_div_def)
  have a: "trolled_once (fst (maybe_troll ?d ?r [] (\<lambda>i. 0)))
           \<and> d_rect (fst (maybe_troll ?d ?r [] (\<lambda>i. 0))) = set_topleft (d_rect ?d) (alt_pos ?d)"
    using door_trolls_at_most_once [where d = ?d and r = ?r and ps = "[]" and g = "\<lambda>i. 0"] f
    by blast
  have b: "door_swaps [Troll ?r, DoorTick 0.1, Troll (mk_rect 150 490 32 44)] (?d, [], \<lambda>i. 0) \<le> 1"
    using door_trolls_at_most_once
            [where d = ?d and ps = "[]" and g = "\<lambda>i. 0"
               and es = "[Troll ?r, DoorTick 0.1, Troll (mk_rect 150 490 32 44)]"] n
    by blast
  have c: "active_rect (fst (maybe_troll_web ?dw ?rw ParticleSystem_init_web (\<lambda>i. 0))) = rect2 ?dw"
    using door_trolls_at_most_once
            [where dw = ?dw and r = ?rw and pw = ParticleSystem_init_web and g = "\<lambda>i. 0"] bw cw
    by blast
  have e: "set_topleft (d_rect ?d) (alt_pos ?d) = mk_rect 160 500 40 60"
    by (simp add: Door_init_def set_topleft_def mk_rect_def)
  have e2: "rect2 ?dw = mk_rect 160 500 40 60" by (simp add: Door_init_web_def)
  show ?thesis using f n bw cw a b c e e2 by simp
qed


section \<open>Point in triangle\<close>

lemma point_in_triangle_small_denominator:
  "\<bar>(y2 - y3) * (x1 - x3) + (x3 - x2) * (y1 - y3)\<bar> < 0.001
     \<Longrightarrow> \<not> point_in_triangle p ((x1, y1), (x2, y2), (x3, y3))"
  by (cases p) (simp add: point_in_triangle_def)

lemma point_in_triangle_collinear:
  assumes "(x2 - x1) * (y3 - y1) = (x3 - x1) * (y2 - y1)"
  shows "\<not> point_in_triangle p ((x1, y1), (x2, y2), (x3, y3))"
proof -
  have "(y2 - y3) * (x1 - x3) + (x3 - x2) * (y1 - y3)
          = (x2 - x1) * (y3 - y1) - (x3 - x1) * (y2 - y1)"
    by (simp add: algebra_simps)
  with assms have "(y2 - y3) * (x1 - x3) + (x3 - x2) * (y1 - y3) = 0" by simp
  then show ?thesis
    by (intro point_in_triangle_small_denominator) simp
qed

text \<open>
  Claim C7. For the right triangle with vertices (0,0), (0,10), (10,0),
  \<^verbatim>\<open>point_in_triangle\<close> classifies (2,2) as inside and (9,9) as outside. A triangle whose
  three vertices are collinear has the barycentric denominator 0, and every triangle
  whose denominator is below 0.001 in absolute value has every point classified as
  outside: the test returns before it divides.
\<close>

theorem point_in_triangle_classification:
  "point_in_triangle (2, 2) ((0, 0), (0, 10), (10, 0))
   \<and> \<not> point_in_triangle (9, 9) ((0, 0), (0, 10), (10, 0))
   \<and> ((x2 - x1) * (y3 - y1) = (x3 - x1) * (y2 - y1)
        \<longrightarrow> (y2 - y3) * (x1 - x3) + (x3 - x2) * (y1 - y3) = 0
          \<and> \<not> point_in_triangle p ((x1, y1), (x2, y2), (x3, y3)))
   \<and> (\<bar>(y2 - y3) * (x1 - x3) + (x3 - x2) * (y1 - y3)\<bar> < 0.001
        \<longrightarrow> \<not> point_in_triangle p ((x1, y1), (x2, y2), (x3, y3)))"
proof (intro conjI impI)
  show "point_in_triangle (2, 2) ((0, 0), (0, 10), (10, 0))"
    by (simp add: point_in_triangle_def)
  show "\<not> point_in_triangle (9, 9) ((0, 0), (0, 10), (10, 0))"
    by (simp add: point_in_triangle_def)
next
  assume c: "(x2 - x1) * (y3 - y1) = (x3 - x1) * (y2 - y1)"
  have "(y2 - y3) * (x1 - x3) + (x3 - x2) * (y1 - y3)
          = (x2 - x1) * (y3 - y1) - (x3 - x1) * (y2 - y1)"
    by (simp add: algebra_simps)
  with c show "(y2 - y3) * (x1 - x3) + (x3 - x2) * (y1 - y3) = 0" by simp
next
  assume "(x2 - x1) * (y3 - y1) = (x3 - x1) * (y2 - y1)"
  then show "\<not> point_in_triangle p ((x1, y1), (x2, y2), (x3, y3))"
    by (rule point_in_triangle_collinear)
next
  assume "\<bar>(y2 - y3) * (x1 - x3) + (x3 - x2) * (y1 - y3)\<bar> < 0.001"
  then show "\<not> point_in_triangle p ((x1, y1), (x2, y2), (x3, y3))"
    by (rule point_in_triangle_small_denominator)
qed

theorem point_in_triangle_classification_witness:
  "(5 - 0) * (20 - 0) = (10 - 0) * (10 - (0::real))
   \<and> \<not> point_in_triangle (5, 10) ((0, 0), (5, 10), (10, 20))
   \<and> \<bar>(0 - 0.0005) * (0 - 1) + (1 - 1) * (0 - 0.0005)\<bar> < (0.001::real)
   \<and> \<not> point_in_triangle (0.5, 0.0001) ((0, 0), (1, 0), (1, 0.0005))"
  using point_in_triangle_classification [of 5 0 20 0 10 10 "(5, 10)"]
        point_in_triangle_classification [of 1 0 "0.0005" 0 1 0 "(0.5, 0.0001)"]
  by simp


section \<open>The collision list of a frame\<close>

lemma control_move_web_rect: "pl_rect_web (control_move_web p ks) = pl_rect_web p"
  by (simp add: control_move_web_def Let_def split: prod.splits)

lemma control_jump_web_rect: "pl_rect_web (control_jump_web p ks dt) = pl_rect_web p"
  by (simp add: control_jump_web_def Let_def)

lemma control_web_rect: "pl_rect_web (control_web p ks dt) = pl_rect_web p"
  by (simp add: control_web_def control_jump_web_rect control_move_web_rect)

lemma before_physics_web_player_x:
  "snd (before_physics_web gm dt ks) = rect_centerx (pl_rect_web (player_web (level_web gm)))"
  by (simp add: before_physics_web_def Let_def control_web_rect)

lemma before_physics_web_fake_platforms:
  "fake_platforms (level_web (fst (before_physics_web gm dt ks)))
     = update_fake_platforms (fake_platforms (level_web gm))
         (rect_centerx (pl_rect_web (player_web (level_web gm)))) dt"
  by (simp add: before_physics_web_def Let_def control_web_rect)

lemma platforms_for_collision_web_set:
  "set (platforms_for_collision_web lv player_x) =
     {p \<in> set (platforms_web lv). near (pf_rect p) player_x 800}
     \<union> (\<lambda>fake. Platform_init (rect_x (fp_rect fake)) (rect_y (fp_rect fake))
                               (rect_w (fp_rect fake)) (rect_h (fp_rect fake)))
         ` {fake \<in> set (fake_platforms lv).
              fp_active fake \<and> \<not> fp_triggered fake \<and> near (fp_rect fake) player_x 800}
     \<union> (if mw_alive (magic_wall_web lv) \<and> near (mw_rect (magic_wall_web lv)) player_x 800
        then {Platform_init (rect_x (mw_rect (magic_wall_web lv))) (rect_y (mw_rect (magic_wall_web lv)))
                            (rect_w (mw_rect (magic_wall_web lv))) (rect_h (mw_rect (magic_wall_web lv)))}
        else {})"
  by (auto simp: platforms_for_collision_web_def Let_def)

text \<open>
  Claim C8, as amended. In \<^verbatim>\<open>gmae.py\<close> the list that the player's physics step of a
  frame is resolved against holds all static platforms and, when the wall is alive, the
  magic wall's rectangle, and nothing else (that file has no fake platforms). In
  \<^verbatim>\<open>main.py\<close> it holds the static platforms whose centre is horizontally less than
  800 pixels from the player's centre, the fake platforms that are active, not yet
  triggered and within the same distance, and the magic wall's rectangle when the wall is
  alive and within that distance, and nothing else.
\<close>

theorem collision_list_contents:
  "set (platforms_for_collision (after_control gm dt ks)) =
     set (platforms (level gm))
     \<union> (if mw_alive (magic_wall (level gm))
        then {Platform_init (rect_x (mw_rect (magic_wall (level gm)))) (rect_y (mw_rect (magic_wall (level gm))))
                            (rect_w (mw_rect (magic_wall (level gm)))) (rect_h (mw_rect (magic_wall (level gm))))}
        else {})
   \<and> (let lv = level_web (fst (before_physics_web gw dt ks));
           player_x = snd (before_physics_web gw dt ks)
       in player_x = rect_centerx (pl_rect_web (player_web (level_web gw)))
          \<and> platforms_web lv = platforms_web (level_web gw)
          \<and> magic_wall_web lv = magic_wall_web (level_web gw)
          \<and> set (platforms_for_collision_web lv player_x) =
               {p \<in> set (platforms_web lv). near (pf_rect p) player_x 800}
               \<union> (\<lambda>fake. Platform_init (rect_x (fp_rect fake)) (rect_y (fp_rect fake))
                                         (rect_w (fp_rect fake)) (rect_h (fp_rect fake)))
                   ` {fake \<in> set (fake_platforms lv).
                        fp_active fake \<and> \<not> fp_triggered fake \<and> near (fp_rect fake) player_x 800}
               \<union> (if mw_alive (magic_wall_web lv) \<and> near (mw_rect (magic_wall_web lv)) player_x 800
                  then {Platform_init (rect_x (mw_rect (magic_wall_web lv)))
                                      (rect_y (mw_rect (magic_wall_web lv)))
                                      (rect_w (mw_rect (magic_wall_web lv)))
                                      (rect_h (mw_rect (magic_wall_web lv)))}
                  else {}))"
proof -
  have d: "set (platforms_for_collision (after_control gm dt ks)) =
     set (platforms (level gm))
     \<union> (if mw_alive (magic_wall (level gm))
        then {Platform_init (rect_x (mw_rect (magic_wall (level gm)))) (rect_y (mw_rect (magic_wall (level gm))))
                            (rect_w (mw_rect (magic_wall (level gm)))) (rect_h (mw_rect (magic_wall (level gm))))}
        else {})"
    by (simp add: platforms_for_collision_def Let_def after_control_wall after_control_platforms)
  show ?thesis
    unfolding Let_def
    by (intro conjI d before_physics_web_player_x before_physics_web_platforms
          before_physics_web_wall platforms_for_collision_web_set)
qed

theorem collision_list_contents_witness:
  "mw_alive (magic_wall (level (Game_init 0)))
   \<and> set (platforms_for_collision (after_control (Game_init 0) (1 / 60) (\<lambda>k. False)))
       = set (platforms setup_level) \<union> {Platform_init 350 580 70 80}
   \<and> Platform_init 0 670 1280 50
       \<in> set (platforms_for_collision_web
                (level_web (fst (before_physics_web (Game_init_web 0) (1 / 60) (\<lambda>k. False))))
                (snd (before_physics_web (Game_init_web 0) (1 / 60) (\<lambda>k. False))))"
proof -
  have a: "mw_alive (magic_wall (level (Game_init 0)))"
    by (simp add: Game_init_def setup_level_def MagicWall_init_def)
  have w: "mw_rect (magic_wall (level (Game_init 0))) = mk_rect 350 580 70 80"
    by (simp add: Game_init_def setup_level_def MagicWall_init_def HEIGHT_def)
  have g: "Platform_init 0 670 1280 50 \<in> set (platforms_web (level_web (Game_init_web 0)))"
    by (simp add: Game_init_web_def setup_level_web_def HEIGHT_def WIDTH_def)
  have n: "near (pf_rect (Platform_init 0 670 1280 50))
             (rect_centerx (pl_rect_web (player_web (level_web (Game_init_web 0))))) 800"
    by (simp add: Game_init_web_def setup_level_web_def Player_init_web_def near_def
          Platform_init_def mk_rect_def rect_centerx_def c_div_def HEIGHT_def)
  note t = collision_list_contents [of "Game_init 0" "1 / 60" "\<lambda>k. False" "Game_init_web 0",
                                     unfolded Let_def]
  note t1 = t [THEN conjunct1]
  note px = t [THEN conjunct2, THEN conjunct1]
  note pw = t [THEN conjunct2, THEN conjunct2, THEN conjunct1]
  note se = t [THEN conjunct2, THEN conjunct2, THEN conjunct2, THEN conjunct2]
  let ?lv = "level_web (fst (before_physics_web (Game_init_web 0) (1 / 60) (\<lambda>k. False)))"
  let ?px = "snd (before_physics_web (Game_init_web 0) (1 / 60) (\<lambda>k. False))"
  have d: "set (platforms_for_collision (after_control (Game_init 0) (1 / 60) (\<lambda>k. False)))
       = set (platforms setup_level) \<union> {Platform_init 350 580 70 80}"
    unfolding t1 using a w by (simp add: mk_rect_def Game_init_def)
  have "Platform_init 0 670 1280 50 \<in> {p \<in> set (platforms_web ?lv). near (pf_rect p) ?px 800}"
    unfolding px pw using g n by simp
  then have "Platform_init 0 670 1280 50 \<in> set (platforms_for_collision_web ?lv ?px)"
    unfolding se by (intro UnI1)
  with a d show ?thesis by (intro conjI)
qed

text \<open>The claim as stated fails in \<^verbatim>\<open>main.py\<close>: in the first frame of a new game the
  static platform of the final approach, 1095 pixels from the player, is left out of the
  list.\<close>

theorem collision_list_counterexample:
  "Platform_init 1100 440 140 20 \<in> set (platforms_web (level_web (Game_init_web 0)))
   \<and> Platform_init 1100 440 140 20
       \<notin> set (platforms_for_collision_web
                (level_web (fst (before_physics_web (Game_init_web 0) (1 / 60) (\<lambda>k. False))))
                (snd (before_physics_web (Game_init_web 0) (1 / 60) (\<lambda>k. False))))"
proof -
  have x: "snd (before_physics_web (Game_init_web 0) (1 / 60) (\<lambda>k. False)) = 75"
    by (simp add: before_physics_web_player_x Game_init_web_def setup_level_web_def
          Player_init_web_def mk_rect_def rect_centerx_def c_div_def)
  have f: "fake_platforms (level_web (fst (before_physics_web (Game_init_web 0) (1 / 60) (\<lambda>k. False))))
             = [FakePlatform_init 220 520 60 16 0.8, FakePlatform_init 750 460 50 16 0.7]"
    by (simp add: before_physics_web_fake_platforms Game_init_web_def setup_level_web_def
          Player_init_web_def FakePlatform_init_def FakePlatform_update_def near_def
          mk_rect_def rect_centerx_def c_div_def HEIGHT_def)
  have p: "platforms_web (level_web (fst (before_physics_web (Game_init_web 0) (1 / 60) (\<lambda>k. False))))
             = platforms_web setup_level_web"
    by (simp add: before_physics_web_platforms Game_init_web_def)
  have w: "magic_wall_web (level_web (fst (before_physics_web (Game_init_web 0) (1 / 60) (\<lambda>k. False))))
             = MagicWall_init 350 580 70 80"
    by (simp add: before_physics_web_wall Game_init_web_def setup_level_web_def HEIGHT_def)
  have 1: "Platform_init 1100 440 140 20 \<in> set (platforms_web (level_web (Game_init_web 0)))"
    by (simp add: Game_init_web_def setup_level_web_def HEIGHT_def)
  have 2: "Platform_init 1100 440 140 20
       \<notin> set (platforms_for_collision_web
                (level_web (fst (before_physics_web (Game_init_web 0) (1 / 60) (\<lambda>k. False)))) 75)"
    by (simp add: platforms_for_collision_web_def Let_def f p w setup_level_web_def
          FakePlatform_init_def MagicWall_init_def Platform_init_def near_def mk_rect_def
          rect_centerx_def c_div_def HEIGHT_def WIDTH_def)
  show ?thesis unfolding x using 1 2 by blast
qed


section \<open>Particle system\<close>

lemma explosion_loop_length:
  "length (fst (explosion_loop n pos col vr ps g)) = length ps + n"
  by (induction n arbitrary: ps g) (simp_all add: Let_def split: prod.splits)

lemma dust_loop_length: "length (fst (dust_loop n pos ps g)) = length ps + n"
  by (induction n arbitrary: ps g) (simp_all add: Let_def split: prod.splits)

lemma add_explosion_length:
  "length (fst (add_explosion ps pos count col vr g)) = length ps + nat count"
  by (simp add: add_explosion_def explosion_loop_length)

lemma add_dust_length: "length (fst (add_dust ps pos count g)) = length ps + nat count"
  by (simp add: add_dust_def dust_loop_length)

lemma explosion_loop_web_append:
  "\<exists>new. fst (explosion_loop_web n pos col vr ps g) = ps @ new \<and> length new = n"
proof (induction n arbitrary: ps g)
  case 0
  show ?case by simp
next
  case (Suc n)
  obtain vx g1 where u1: "uniform (fst vr) (snd vr) g = (vx, g1)" by force
  obtain vy g2 where u2: "uniform (fst vr) (- 1) g1 = (vy, g2)" by force
  obtain life g3 where u3: "uniform 0.5 1.0 g2 = (life, g3)" by force
  obtain size g4 where u4: "uniform 2 4 g3 = (size, g4)" by force
  let ?q = "\<lparr>p_pos = pos, p_vel = (vx, vy), p_life = life, p_max_life = life,
             p_color = col, p_size = size\<rparr>"
  from Suc.IH [of "ps @ [?q]" g4] obtain new
    where n: "fst (explosion_loop_web n pos col vr (ps @ [?q]) g4) = (ps @ [?q]) @ new"
      and l: "length new = n" by blast
  have "fst (explosion_loop_web (Suc n) pos col vr ps g) = ps @ (?q # new)"
    using n u1 u2 u3 u4 by simp
  moreover have "length (?q # new) = Suc n" using l by simp
  ultimately show ?case by blast
qed

lemma explosion_loop_web_length:
  "length (fst (explosion_loop_web n pos col vr ps g)) = length ps + n"
  using explosion_loop_web_append [of n pos col vr ps g] by auto

lemma dust_loop_web_length: "length (fst (dust_loop_web n pos ps g)) = length ps + n"
  by (induction n arbitrary: ps g) (simp_all add: Let_def split: prod.splits)

lemma add_explosion_web_max [simp]:
  "max_particles (fst (add_explosion_web s pos count col vr g)) = max_particles s"
  by (simp add: add_explosion_web_def Let_def split: prod.splits)

lemma add_dust_web_max [simp]:
  "max_particles (fst (add_dust_web s pos count g)) = max_particles s"
  by (simp add: add_dust_web_def Let_def split: prod.splits)

lemma ParticleSystem_update_web_max [simp]:
  "max_particles (ParticleSystem_update_web s dt) = max_particles s"
  by (simp add: ParticleSystem_update_web_def)

lemma add_explosion_web_particles:
  "particles_web (fst (add_explosion_web s pos count col vr g)) =
     fst (explosion_loop_web (nat (min count 10)) pos col vr
            (if int (length (particles_web s)) + min count 10 > max_particles s
             then slice_from (- (max_particles s - min count 10)) (particles_web s)
             else particles_web s) g)"
  by (simp add: add_explosion_web_def Let_def split: prod.splits)

lemma add_explosion_web_bound:
  assumes "10 < max_particles s" and "int (length (particles_web s)) \<le> max_particles s"
  shows "int (length (particles_web (fst (add_explosion_web s pos count col vr g))))
           \<le> max_particles s"
proof (cases "int (length (particles_web s)) + min count 10 > max_particles s")
  case True
  define c where "c = min count 10"
  define kept where "kept = slice_from (- (max_particles s - c)) (particles_web s)"
  have c: "0 < c" "c \<le> 10" using True assms(2) by (simp_all add: c_def)
  have "length kept \<le> nat (max_particles s - c)"
    using assms(1) c by (auto simp: kept_def slice_from_def max_def)
  then have "int (length kept) + c \<le> max_particles s" using c assms(1) by linarith
  moreover have "length (particles_web (fst (add_explosion_web s pos count col vr g)))
                   = length kept + nat c"
    using True by (simp add: add_explosion_web_particles explosion_loop_web_length kept_def c_def)
  ultimately show ?thesis using c by simp
next
  case False
  then show ?thesis using assms(2)
    by (simp add: add_explosion_web_particles explosion_loop_web_length)
qed

lemma add_dust_web_bound:
  assumes "int (length (particles_web s)) \<le> max_particles s"
  shows "int (length (particles_web (fst (add_dust_web s pos count g)))) \<le> max_particles s"
proof (cases "int (length (particles_web s)) + count > max_particles s")
  case True
  then show ?thesis using assms by (simp add: add_dust_web_def)
next
  case False
  have "particles_web (fst (add_dust_web s pos count g))
          = fst (dust_loop_web (nat count) pos (particles_web s) g)"
    using False by (simp add: add_dust_web_def Let_def split: prod.splits)
  then have "length (particles_web (fst (add_dust_web s pos count g)))
          = length (particles_web s) + nat count"
    by (simp add: dust_loop_web_length)
  then show ?thesis using False assms by simp
qed

lemma ParticleSystem_update_web_bound:
  "length (particles_web (ParticleSystem_update_web s dt)) \<le> length (particles_web s)"
  by (simp add: ParticleSystem_update_web_def le_trans [OF length_filter_le])

lemma particle_run_web_max [simp]:
  "max_particles (fst (particle_run_web s ops g)) = max_particles s"
proof (induction s ops g rule: particle_run_web.induct)
  case (2 s pos count col vr ops g)
  then show ?case
    by (simp split: prod.splits) (metis add_explosion_web_max fst_conv)
next
  case (3 s pos count ops g)
  then show ?case
    by (simp split: prod.splits) (metis add_dust_web_max fst_conv)
qed simp_all

lemma particle_run_web_bound:
  "10 < max_particles s \<Longrightarrow> int (length (particles_web s)) \<le> max_particles s
     \<Longrightarrow> int (length (particles_web (fst (particle_run_web s ops g)))) \<le> max_particles s"
proof (induction s ops g rule: particle_run_web.induct)
  case (1 s g)
  then show ?case by simp
next
  case (2 s pos count col vr ops g)
  obtain s1 g1 where e: "add_explosion_web s pos count col vr g = (s1, g1)" by force
  have "max_particles s1 = max_particles s"
    using add_explosion_web_max [of s pos count col vr g] e by simp
  moreover have "int (length (particles_web s1)) \<le> max_particles s"
    using add_explosion_web_bound [OF "2.prems", of pos count col vr g] e by simp
  ultimately show ?case using "2.IH" [of "(s1, g1)" s1 g1] "2.prems" e by simp
next
  case (3 s pos count ops g)
  obtain s1 g1 where e: "add_dust_web s pos count g = (s1, g1)" by force
  have "max_particles s1 = max_particles s"
    using add_dust_web_max [of s pos count g] e by simp
  moreover have "int (length (particles_web s1)) \<le> max_particles s"
    using add_dust_web_bound [OF "3.prems"(2), of pos count g] e by simp
  ultimately show ?case using "3.IH" [of "(s1, g1)" s1 g1] "3.prems" e by simp
next
  case (4 s dt ops g)
  have "int (length (particles_web (ParticleSystem_update_web s dt))) \<le> max_particles s"
    using ParticleSystem_update_web_bound [of s dt] "4.prems"(2) by linarith
  then show ?case using "4.IH" "4.prems" by simp
qed

lemma add_explosion_web_evicts:
  assumes "10 < max_particles s"
    and "int (length (particles_web s)) \<le> max_particles s"
    and "int (length (particles_web s)) + min count 10 > max_particles s"
  shows "\<exists>new. particles_web (fst (add_explosion_web s pos count col vr g))
                 = drop (nat (int (length (particles_web s)) - (max_particles s - min count 10)))
                        (particles_web s) @ new
               \<and> length new = nat (min count 10)"
proof -
  have n: "nat (max 0 (int (length (particles_web s)) + - (max_particles s - min count 10)))
             = nat (int (length (particles_web s)) - (max_particles s - min count 10))"
    by arith
  have "- (max_particles s - min count 10) < 0" using assms(1) by simp
  then have k: "slice_from (- (max_particles s - min count 10)) (particles_web s)
             = drop (nat (int (length (particles_web s)) - (max_particles s - min count 10)))
                    (particles_web s)"
    unfolding slice_from_def using n by simp
  have "particles_web (fst (add_explosion_web s pos count col vr g)) =
          fst (explosion_loop_web (nat (min count 10)) pos col vr
                 (slice_from (- (max_particles s - min count 10)) (particles_web s)) g)"
    using assms(3) add_explosion_web_particles [of s pos count col vr g] by (simp only: if_True)
  then have "particles_web (fst (add_explosion_web s pos count col vr g)) =
          fst (explosion_loop_web (nat (min count 10)) pos col vr
                 (drop (nat (int (length (particles_web s)) - (max_particles s - min count 10)))
                       (particles_web s)) g)"
    by (simp only: k)
  then show ?thesis
    using explosion_loop_web_append
            [of "nat (min count 10)" pos col vr
                "drop (nat (int (length (particles_web s)) - (max_particles s - min count 10)))
                      (particles_web s)" g]
    by simp
qed

text \<open>
  Claim C9, as amended. In \<^verbatim>\<open>main.py\<close> the particle system created by the constructor
  never holds more than 100 particles, whatever sequence of \<^verbatim>\<open>add_explosion\<close>,
  \<^verbatim>\<open>add_dust\<close> and \<^verbatim>\<open>update\<close> calls it receives; the same holds from any system
  whose cap is above 10 and that starts within its cap. An explosion that would exceed
  the cap keeps the newest particles (it drops the oldest) and appends at most 10 new
  ones; dust that would exceed the cap is skipped. In \<^verbatim>\<open>gmae.py\<close> there is no cap:
  every add call appends \<open>count\<close> particles.
\<close>

theorem particle_cap_web:
  "int (length (particles_web (fst (particle_run_web ParticleSystem_init_web ops g)))) \<le> 100
   \<and> (10 < max_particles s \<and> int (length (particles_web s)) \<le> max_particles s
        \<longrightarrow> int (length (particles_web (fst (particle_run_web s ops g)))) \<le> max_particles s)
   \<and> (10 < max_particles s \<and> int (length (particles_web s)) \<le> max_particles s
        \<and> int (length (particles_web s)) + min count 10 > max_particles s
        \<longrightarrow> (\<exists>new. particles_web (fst (add_explosion_web s pos count col vr g))
                 = drop (nat (int (length (particles_web s)) - (max_particles s - min count 10)))
                        (particles_web s) @ new
               \<and> length new = nat (min count 10)))
   \<and> (int (length (particles_web s)) + count > max_particles s
        \<longrightarrow> add_dust_web s pos count g = (s, g))
   \<and> length (fst (add_explosion ps pos count col vr g)) = length ps + nat count
   \<and> length (fst (add_dust ps pos count g)) = length ps + nat count"
proof (intro conjI impI)
  show "int (length (particles_web (fst (particle_run_web ParticleSystem_init_web ops g)))) \<le> 100"
    using particle_run_web_bound [of ParticleSystem_init_web ops g]
    by (simp add: ParticleSystem_init_web_def)
next
  assume "10 < max_particles s \<and> int (length (particles_web s)) \<le> max_particles s"
  then show "int (length (particles_web (fst (particle_run_web s ops g)))) \<le> max_particles s"
    using particle_run_web_bound by blast
next
  assume "10 < max_particles s \<and> int (length (particles_web s)) \<le> max_particles s
        \<and> int (length (particles_web s)) + min count 10 > max_particles s"
  then show "\<exists>new. particles_web (fst (add_explosion_web s pos count col vr g))
                 = drop (nat (int (length (particles_web s)) - (max_particles s - min count 10)))
                        (particles_web s) @ new
               \<and> length new = nat (min count 10)"
    using add_explosion_web_evicts by blast
next
  assume "int (length (particles_web s)) + count > max_particles s"
  then show "add_dust_web s pos count g = (s, g)"
    by (simp add: add_dust_web_def)
next
  show "length (fst (add_explosion ps pos count col vr g)) = length ps + nat count"
    by (rule add_explosion_length)
  show "length (fst (add_dust ps pos count g)) = length ps + nat count"
    by (rule add_dust_length)
qed

theorem particle_cap_web_witness:
  "10 < max_particles ParticleSystem_init_web
   \<and> int (length (particles_web ParticleSystem_init_web)) \<le> max_particles ParticleSystem_init_web
   \<and> int (length (particles_web (fst (particle_run_web ParticleSystem_init_web
         [AddExplosion (0, 0) 40 COLOR_IMPACT (- 5, 5), AddDust (0, 0) 3, Update 0.1] (\<lambda>i. 0)))))
       \<le> max_particles ParticleSystem_init_web
   \<and> int (length (particles_web (ParticleSystem_init_web\<lparr>max_particles := 2\<rparr>))) + 3
       > max_particles (ParticleSystem_init_web\<lparr>max_particles := 2\<rparr>)
   \<and> add_dust_web (ParticleSystem_init_web\<lparr>max_particles := 2\<rparr>) (0, 0) 3 (\<lambda>i. 0)
       = (ParticleSystem_init_web\<lparr>max_particles := 2\<rparr>, \<lambda>i. 0)"
  using particle_cap_web
          [where s = ParticleSystem_init_web and g = "\<lambda>i. 0"
             and ops = "[AddExplosion (0, 0) 40 COLOR_IMPACT (- 5, 5), AddDust (0, 0) 3, Update 0.1]"]
        particle_cap_web
          [where s = "ParticleSystem_init_web\<lparr>max_particles := 2\<rparr>" and g = "\<lambda>i. 0"
             and count = 3 and pos = "(0, 0)"]
  by (simp add: ParticleSystem_init_web_def)

text \<open>The claim as stated fails for the particle system of \<^verbatim>\<open>gmae.py\<close>: six explosions
  of 20 particles leave 120 particles alive.\<close>

theorem particle_cap_counterexample:
  "\<not> length (fst (particle_run []
        [AddExplosion (0, 0) 20 COLOR_IMPACT (- 5, 5), AddExplosion (0, 0) 20 COLOR_IMPACT (- 5, 5),
         AddExplosion (0, 0) 20 COLOR_IMPACT (- 5, 5), AddExplosion (0, 0) 20 COLOR_IMPACT (- 5, 5),
         AddExplosion (0, 0) 20 COLOR_IMPACT (- 5, 5), AddExplosion (0, 0) 20 COLOR_IMPACT (- 5, 5)]
        (\<lambda>i. 0))) \<le> 100"
  by (simp add: case_prod_beta add_explosion_length)


section \<open>Reset\<close>

text \<open>
  Claim C10. In any state, \<^verbatim>\<open>reset_game\<close> sets the state to PLAYING, restarts the clock,
  clears the death and win times, rebuilds the whole level (player, platforms, hazards,
  door, win trigger) as \<^verbatim>\<open>setup_level\<close> builds it for a new game, and replaces the
  particle system and the camera by fresh ones; the attempts counter and the best time
  are left as they were. A frame with the reset key down does exactly this. Both files.
\<close>

theorem reset_game_effect:
  "state (reset_game gm now) = PLAYING
   \<and> level (reset_game gm now) = setup_level
   \<and> level (reset_game gm now) = level (Game_init t0)
   \<and> particles (reset_game gm now) = particles (Game_init t0)
   \<and> camera (reset_game gm now) = camera (Game_init t0)
   \<and> start_time (reset_game gm now) = now
   \<and> death_time (reset_game gm now) = None
   \<and> win_time (reset_game gm now) = None
   \<and> attempts (reset_game gm now) = attempts gm
   \<and> best_time (reset_game gm now) = best_time gm
   \<and> (ks K_r \<longrightarrow> update gm dt ks now g = (True, reset_game gm now, g))
   \<and> state_web (reset_game_web gw now) = PLAYING
   \<and> level_web (reset_game_web gw now) = level_web (Game_init_web t0)
   \<and> particle_system (reset_game_web gw now) = particle_system (Game_init_web t0)
   \<and> camera_web (reset_game_web gw now) = camera_web (Game_init_web t0)
   \<and> start_time_web (reset_game_web gw now) = now
   \<and> death_time_web (reset_game_web gw now) = None
   \<and> win_time_web (reset_game_web gw now) = None
   \<and> attempts_web (reset_game_web gw now) = attempts_web gw
   \<and> best_time_web (reset_game_web gw now) = best_time_web gw
   \<and> (ks K_r \<longrightarrow> update_web gw dt ks now g = (True, reset_game_web gw now, g))"
  by (simp add: reset_game_def Game_init_def update_def reset_game_web_def Game_init_web_def
        update_web_def)

theorem reset_game_effect_witness:
  "(\<lambda>k. k = K_r) K_r
   \<and> attempts (fst (snd (update ((Game_init 0)\<lparr>state := DEAD, attempts := 7, best_time := Some 42\<rparr>)
                            (1 / 60) (\<lambda>k. k = K_r) 5 (\<lambda>i. 0)))) = 7
   \<and> best_time (fst (snd (update ((Game_init 0)\<lparr>state := DEAD, attempts := 7, best_time := Some 42\<rparr>)
                            (1 / 60) (\<lambda>k. k = K_r) 5 (\<lambda>i. 0)))) = Some 42
   \<and> state (fst (snd (update ((Game_init 0)\<lparr>state := DEAD, attempts := 7, best_time := Some 42\<rparr>)
                            (1 / 60) (\<lambda>k. k = K_r) 5 (\<lambda>i. 0)))) = PLAYING
   \<and> attempts_web (fst (snd (update_web ((Game_init_web 0)\<lparr>state_web := WON, attempts_web := 3\<rparr>)
                            (1 / 60) (\<lambda>k. k = K_r) 5 (\<lambda>i. 0)))) = 3"
  using reset_game_effect [of "(Game_init 0)\<lparr>state := DEAD, attempts := 7, best_time := Some 42\<rparr>" 5 0
          "\<lambda>k. k = K_r" "1 / 60" "\<lambda>i. 0" "(Game_init_web 0)\<lparr>state_web := WON, attempts_web := 3\<rparr>"]
  by simp


end
